theory Spec2Isabelle
  imports Main "HOL-Library.AList"
begin

section \<open>JavaScript values crossing the worker boundary\<close>

text \<open>
  Messages between the page and the worker, and the records delivered on the watch
  broadcast channel, are untyped in the source (\<^verbatim>\<open>any\<close>). They are modelled as
  structured data: the primitives and objects as insertion-ordered field lists. Numbers
  are the integers (exit codes); arrays do not occur in the protocol's messages and are
  outside the value model.
\<close>

datatype jsval =
    JUndefined
  | JNull
  | JBool bool
  | JNum int
  | JStr string
  | JObj "(string \<times> jsval) list"

text \<open>\<^verbatim>\<open>x?.k\<close>: reading a property; on a value without that property the result is
  \<^verbatim>\<open>undefined\<close>, also on \<^verbatim>\<open>null\<close> and \<^verbatim>\<open>undefined\<close> themselves.\<close>

fun js_opt_field :: "jsval \<Rightarrow> string \<Rightarrow> jsval" where
  "js_opt_field (JObj fs) k = (case map_of fs k of Some v \<Rightarrow> v | None \<Rightarrow> JUndefined)"
| "js_opt_field _ k = JUndefined"

fun js_nullish :: "jsval \<Rightarrow> bool" where
  "js_nullish JUndefined = True"
| "js_nullish JNull = True"
| "js_nullish _ = False"

text \<open>\<^verbatim>\<open>a ?? b\<close>\<close>

definition js_coalesce :: "jsval \<Rightarrow> jsval \<Rightarrow> jsval" where
  "js_coalesce a b = (if js_nullish a then b else a)"

text \<open>Truthiness, as \<^verbatim>\<open>if (x)\<close>, \<^verbatim>\<open>!x\<close> and \<^verbatim>\<open>x && y\<close> test it.\<close>

fun js_truthy :: "jsval \<Rightarrow> bool" where
  "js_truthy JUndefined = False"
| "js_truthy JNull = False"
| "js_truthy (JBool b) = b"
| "js_truthy (JNum n) = (n \<noteq> 0)"
| "js_truthy (JStr s) = (s \<noteq> [])"
| "js_truthy (JObj fs) = True"

text \<open>Object spread \<^verbatim>\<open>{ ...base, ...extra }\<close>: each field of \<open>extra\<close> is assigned in
  order; an existing key keeps its position and takes the new value.\<close>

definition js_spread :: "(string \<times> jsval) list \<Rightarrow> (string \<times> jsval) list \<Rightarrow> (string \<times> jsval) list" where
  "js_spread base extra = fold (\<lambda>(k, v). AList.update k v) extra base"

section \<open>Worker RPC channel: callWorker\<close>

text \<open>
  One worker's side of the page: the listeners registered on its \<^verbatim>\<open>message\<close> event,
  the promises \<^verbatim>\<open>callWorker\<close> has returned (numbered in call order, each unsettled or
  resolved with a value), and the messages posted to the worker. Both variants of
  \<^verbatim>\<open>callWorker\<close> (index.ts and the one beside the filesystem adapter) are this function.
\<close>

record channel =
  listeners :: "(nat \<times> string) list"
  settled :: "nat \<Rightarrow> jsval option"
  posted :: "jsval list"
  ncalls :: nat

definition new_channel :: channel where
  "new_channel = \<lparr> listeners = [], settled = (\<lambda>_. None), posted = [], ncalls = 0 \<rparr>"

text \<open>\<^verbatim>\<open>resolve(v)\<close> on promise \<open>k\<close>: a promise settles once.\<close>

definition resolve :: "nat \<Rightarrow> jsval \<Rightarrow> channel \<Rightarrow> channel" where
  "resolve k v ch =
     (if settled ch k = None then ch\<lparr> settled := (settled ch)(k \<mapsto> v) \<rparr> else ch)"

text \<open>The closure \<^verbatim>\<open>listener\<close> of call \<open>k\<close> with correlation id \<open>cid\<close>, run on an
  event whose data is \<open>d\<close>.\<close>

definition listener :: "jsval \<Rightarrow> nat \<times> string \<Rightarrow> channel \<Rightarrow> channel" where
  "listener d l ch =
     (if js_opt_field d ''id'' \<noteq> JStr (snd l) then ch
      else resolve (fst l) d (ch\<lparr> listeners := removeAll l (listeners ch) \<rparr>))"

text \<open>\<^verbatim>\<open>callWorker(worker, msg)\<close>, with \<open>cid\<close> the value \<^verbatim>\<open>crypto.randomUUID()\<close>
  returned: the number of the promise it returns, and the channel afterwards.\<close>

definition callWorker :: "string \<Rightarrow> (string \<times> jsval) list \<Rightarrow> channel \<Rightarrow> nat \<times> channel" where
  "callWorker cid msg ch =
     (ncalls ch,
      ch\<lparr> listeners := listeners ch @ [(ncalls ch, cid)],
          posted := posted ch @ [JObj (js_spread [(''id'', JStr cid)] msg)],
          ncalls := Suc (ncalls ch) \<rparr>)"

text \<open>The worker delivers a message: the event is dispatched to the listeners
  registered when the dispatch starts, in registration order.\<close>

definition deliver :: "jsval \<Rightarrow> channel \<Rightarrow> channel" where
  "deliver d ch = fold (listener d) (listeners ch) ch"

text \<open>What happens on a channel: calls and deliveries, interleaved in any order.\<close>

datatype chan_event = Call string "(string \<times> jsval) list" | Deliver jsval

fun chan_step :: "chan_event \<Rightarrow> channel \<Rightarrow> channel" where
  "chan_step (Call cid msg) ch = snd (callWorker cid msg ch)"
| "chan_step (Deliver d) ch = deliver d ch"

definition chan_run :: "chan_event list \<Rightarrow> channel \<Rightarrow> channel" where
  "chan_run evs ch = fold chan_step evs ch"

fun delivered :: "chan_event list \<Rightarrow> jsval list" where
  "delivered [] = []"
| "delivered (Call cid msg # evs) = delivered evs"
| "delivered (Deliver d # evs) = d # delivered evs"


section \<open>Faults and awaited operations\<close>

text \<open>
  A thrown value is an \<^verbatim>\<open>Error\<close> instance with its \<^verbatim>\<open>name\<close> and
  \<^verbatim>\<open>message\<close>, as the engine, \<^verbatim>\<open>importScripts\<close> and the runtime throw them.
  An awaited operation resolves, rejects, or never settles (a load that hangs, submitted
  code that loops): then the code after the \<^verbatim>\<open>await\<close> never runs.
\<close>

datatype thrown = ErrorObj string string

text \<open>\<^verbatim>\<open>e?.message ?? e\<close> converted by \<^verbatim>\<open>String(...)\<close>: the message of an Error is a string,
  never nullish.\<close>

fun err_message :: "thrown \<Rightarrow> string" where
  "err_message (ErrorObj n m) = m"

text \<open>\<^verbatim>\<open>String(e)\<close>, that is \<^verbatim>\<open>Error.prototype.toString\<close>.\<close>

fun err_toString :: "thrown \<Rightarrow> string" where
  "err_toString (ErrorObj n m) = (if n = [] then m else if m = [] then n else n @ '': '' @ m)"

datatype 'a settle = Resolved 'a | Rejected thrown | Never

text \<open>\<^verbatim>\<open>String(v)\<close> and template interpolation of a value. An integer prints in
  decimal (JavaScript switches to exponent notation from \<open>10\<^sup>2\<^sup>1\<close> on; numbers of that
  size are outside the model).\<close>

fun digits10 :: "nat \<Rightarrow> string" where
  "digits10 n =
     (if n < 10 then [''0123456789'' ! n]
      else digits10 (n div 10) @ [''0123456789'' ! (n mod 10)])"

fun js_String :: "jsval \<Rightarrow> string" where
  "js_String JUndefined = ''undefined''"
| "js_String JNull = ''null''"
| "js_String (JBool b) = (if b then ''true'' else ''false'')"
| "js_String (JNum n) = (if n < 0 then ''-'' @ digits10 (nat (- n)) else digits10 (nat n))"
| "js_String (JStr s) = s"
| "js_String (JObj fs) = ''[object Object]''"

definition endsWith :: "string \<Rightarrow> string \<Rightarrow> bool" where
  "endsWith s t = (length t \<le> length s \<and> drop (length s - length t) s = t)"

definition startsWith :: "string \<Rightarrow> string \<Rightarrow> bool" where
  "startsWith s t = (take (length t) s = t)"

section \<open>The Pyodide worker\<close>

text \<open>
  What the worker's surroundings do while one message is handled: whether
  \<^verbatim>\<open>importScripts(url)\<close> throws, whether the call \<^verbatim>\<open>loadPyodide({indexURL})\<close> throws
  (the loader is whatever the imported script defines; it is declared to return a
  promise, and like any call it may throw instead) and otherwise how the promise it
  returns settles, how \<^verbatim>\<open>py.runPythonAsync\<close> settles on the wrapper around the submitted code (the
  elements of the tuple it yields; a result that cannot be destructured is a rejection
  with the engine's TypeError), and the TypeError the engine throws for a property read
  on \<^verbatim>\<open>null\<close>/\<^verbatim>\<open>undefined\<close> or a call of a missing method.
\<close>

record worker_env =
  importScripts :: "string \<Rightarrow> thrown option"
  loadPyodide :: "string \<Rightarrow> thrown + unit settle"
  runPythonAsync :: "jsval \<Rightarrow> jsval list settle"
  typeError :: thrown

text \<open>The promise \<^verbatim>\<open>loadPyodide\<close> returned: which call made it, and how it settles.\<close>

record py_promise =
  made_by_load :: nat
  outcome :: "unit settle"

text \<open>The worker's module state (\<^verbatim>\<open>pyPromise\<close>, \<^verbatim>\<open>PYODIDE_INDEX_URL\<close>), the calls of
  \<^verbatim>\<open>importScripts\<close> made so far, the index URLs of the calls of \<^verbatim>\<open>loadPyodide\<close> that
  returned a promise (\<open>loaded\<close>) and of those that threw (\<open>load_thrown\<close>), and the
  replies posted.\<close>

record worker_state =
  pyPromise :: "py_promise option"
  PYODIDE_INDEX_URL :: string
  imported :: "string list"
  loaded :: "string list"
  load_thrown :: "string list"
  outbox :: "jsval list"

definition init_worker :: worker_state where
  "init_worker =
     \<lparr> pyPromise = None,
       PYODIDE_INDEX_URL = ''https://cdn.jsdelivr.net/pyodide/v0.29.0/'',
       imported = [], loaded = [], load_thrown = [], outbox = [] \<rparr>"

text \<open>The assignment \<^verbatim>\<open>pyPromise = loadPyodide({ indexURL: PYODIDE_INDEX_URL })\<close>: when the
  call throws, nothing is assigned and the fault leaves \<^verbatim>\<open>ensurePyodide\<close>.\<close>

definition start_load :: "worker_env \<Rightarrow> worker_state \<Rightarrow> (thrown + py_promise) \<times> worker_state" where
  "start_load env st =
     (case loadPyodide env (PYODIDE_INDEX_URL st) of
        Inl e \<Rightarrow> (Inl e, st\<lparr> load_thrown := load_thrown st @ [PYODIDE_INDEX_URL st] \<rparr>)
      | Inr how \<Rightarrow>
          (let p = \<lparr> made_by_load = length (loaded st), outcome = how \<rparr>
           in (Inr p, st\<lparr> pyPromise := Some p, loaded := loaded st @ [PYODIDE_INDEX_URL st] \<rparr>)))"

text \<open>The \<^verbatim>\<open>try { importScripts(primary) } catch { importScripts(fallback) }\<close> block
  and the load after it; a throw of the fallback leaves the function.\<close>

definition import_and_load :: "worker_env \<Rightarrow> worker_state \<Rightarrow> (thrown + py_promise) \<times> worker_state" where
  "import_and_load env st =
     (let primary = PYODIDE_INDEX_URL st @ ''pyodide.js'';
          st1 = st\<lparr> imported := imported st @ [primary] \<rparr>
      in case importScripts env primary of
           None \<Rightarrow> start_load env st1
         | Some e1 \<Rightarrow>
             (let fallback = PYODIDE_INDEX_URL st @ ''full/pyodide.js'';
                  st2 = st1\<lparr> imported := imported st1 @ [fallback] \<rparr>
              in case importScripts env fallback of
                   None \<Rightarrow> start_load env st2
                 | Some e2 \<Rightarrow> (Inl e2, st2)))"

text \<open>\<^verbatim>\<open>indexURL.endsWith('/') ? indexURL : `${indexURL}/`\<close>\<close>

definition with_slash :: "string \<Rightarrow> string" where
  "with_slash u = (if endsWith u ''/'' then u else u @ ''/'')"

text \<open>A truthy \<open>indexURL\<close> that is not a string has no \<^verbatim>\<open>endsWith\<close>: the call throws
  the engine's TypeError before anything is imported.\<close>

definition ensurePyodide :: "worker_env \<Rightarrow> jsval \<Rightarrow> worker_state \<Rightarrow> (thrown + py_promise) \<times> worker_state" where
  "ensurePyodide env indexURL st =
     (case pyPromise st of
        Some p \<Rightarrow> (Inr p, st)
      | None \<Rightarrow>
          if js_truthy indexURL then
            (case indexURL of
               JStr u \<Rightarrow> import_and_load env (st\<lparr> PYODIDE_INDEX_URL := with_slash u \<rparr>)
             | _ \<Rightarrow> (Inl (typeError env), st))
          else import_and_load env st)"

definition js_index :: "jsval list \<Rightarrow> nat \<Rightarrow> jsval" where
  "js_index xs i = (if i < length xs then xs ! i else JUndefined)"

text \<open>\<^verbatim>\<open>execWithCapture(py, code)\<close>: the fields of the \<^verbatim>\<open>ExecResult\<close> it resolves with. It
  never rejects.\<close>

definition execWithCapture :: "worker_env \<Rightarrow> jsval \<Rightarrow> (string \<times> jsval) list settle" where
  "execWithCapture env code =
     (case runPythonAsync env code of
        Resolved xs \<Rightarrow>
          (let exitCode = js_index xs 0; stdout = js_index xs 1; stderr = js_index xs 2
           in Resolved [(''ok'', JBool (exitCode = JNum 0)), (''exitCode'', exitCode),
                        (''stdout'', stdout), (''stderr'', stderr)])
      | Rejected e \<Rightarrow>
          Resolved [(''ok'', JBool False), (''exitCode'', JNum 1),
                    (''stderr'', JStr (err_message e)), (''error'', JStr (err_toString e))]
      | Never \<Rightarrow> Never)"

definition postMessage :: "jsval \<Rightarrow> worker_state \<Rightarrow> worker_state" where
  "postMessage r st = st\<lparr> outbox := outbox st @ [r] \<rparr>"

text \<open>The code after \<^verbatim>\<open>ensurePyodide\<close> in both branches: await the load, run the code
  with capture, post \<^verbatim>\<open>{ id, ...result }\<close>.\<close>

definition run_and_reply ::
    "worker_env \<Rightarrow> jsval \<Rightarrow> jsval \<Rightarrow> (thrown + py_promise) \<times> worker_state \<Rightarrow> unit settle \<times> worker_state" where
  "run_and_reply env ident code r =
     (case r of
        (Inl e, st) \<Rightarrow> (Rejected e, st)
      | (Inr p, st) \<Rightarrow>
          (case outcome p of
             Rejected e \<Rightarrow> (Rejected e, st)
           | Never \<Rightarrow> (Never, st)
           | Resolved py \<Rightarrow>
               (case execWithCapture env code of
                  Resolved res \<Rightarrow>
                    (Resolved (), postMessage (JObj (js_spread [(''id'', ident)] res)) st)
                | Rejected e \<Rightarrow> (Rejected e, st)
                | Never \<Rightarrow> (Never, st))))"

text \<open>The \<^verbatim>\<open>try\<close> block of the dispatcher.\<close>

definition dispatch :: "worker_env \<Rightarrow> jsval \<Rightarrow> jsval \<Rightarrow> worker_state \<Rightarrow> unit settle \<times> worker_state" where
  \<open>dispatch env msg ident st =
     (if js_nullish msg then (Rejected (typeError env), st)
      else if js_opt_field msg ''type'' = JStr ''init'' then
        run_and_reply env ident (JStr ''print("pyodide ready")'')
          (ensurePyodide env (js_opt_field msg ''indexURL'') st)
      else if js_opt_field msg ''type'' = JStr ''runCode'' then
        run_and_reply env ident (js_opt_field msg ''code'') (ensurePyodide env JUndefined st)
      else
        (Resolved (),
         postMessage
           (JObj [(''id'', ident), (''ok'', JBool False), (''exitCode'', JNum 1),
                  (''error'', JStr (''Unknown message type: '' @ js_String (js_opt_field msg ''type'')))])
           st))\<close>

text \<open>\<^verbatim>\<open>self.onmessage\<close>: the worker state once the handler has run as far as it gets.\<close>

definition onmessage :: "worker_env \<Rightarrow> jsval \<Rightarrow> worker_state \<Rightarrow> worker_state" where
  "onmessage env msg st =
     (let ident = js_coalesce (js_opt_field msg ''id'') (JStr [])
      in case dispatch env msg ident st of
           (Resolved u, st') \<Rightarrow> st'
         | (Rejected e, st') \<Rightarrow>
             postMessage
               (JObj [(''id'', ident), (''ok'', JBool False), (''exitCode'', JNum 1),
                      (''error'', JStr (err_message e)), (''stderr'', JStr (err_toString e))])
               st'
         | (Never, st') \<Rightarrow> st')"

text \<open>The replies one message adds to the outbox.\<close>

definition replies :: "worker_env \<Rightarrow> jsval \<Rightarrow> worker_state \<Rightarrow> jsval list" where
  "replies env msg st = drop (length (outbox st)) (outbox (onmessage env msg st))"

text \<open>
  A sequence of messages, each with what the surroundings do while it is handled. The
  worker's module state changes only inside \<^verbatim>\<open>ensurePyodide\<close>, which is synchronous and
  is the first thing a handler does: handlers that overlap at their awaits change the
  module state in the order their messages arrived, as here. Only the order in which
  overlapping handlers post their replies may differ from the order of the outbox here.
\<close>

definition worker_run :: "(worker_env \<times> jsval) list \<Rightarrow> worker_state \<Rightarrow> worker_state" where
  "worker_run ms st = fold (\<lambda>(env, msg). onmessage env msg) ms st"


text \<open>What the two loading branches of the dispatcher pass on: the argument of
  \<^verbatim>\<open>ensurePyodide\<close> (\<^verbatim>\<open>msg.indexURL\<close> for \<^verbatim>\<open>init\<close>, none for \<^verbatim>\<open>runCode\<close>) and the
  code given to \<^verbatim>\<open>execWithCapture\<close> (the probe for \<^verbatim>\<open>init\<close>, \<^verbatim>\<open>msg.code\<close> for
  \<^verbatim>\<open>runCode\<close>).\<close>

definition loader_arg :: "jsval \<Rightarrow> jsval" where
  "loader_arg msg =
     (if js_opt_field msg ''type'' = JStr ''init'' then js_opt_field msg ''indexURL'' else JUndefined)"

definition submitted_code :: "jsval \<Rightarrow> jsval" where
  \<open>submitted_code msg =
     (if js_opt_field msg ''type'' = JStr ''init'' then JStr ''print("pyodide ready")''
      else js_opt_field msg ''code'')\<close>


section \<open>Execution results\<close>

text \<open>The worker's response as the provider types it,
  \<^verbatim>\<open>{ ok: boolean; exitCode?: number; stdout?: string; stderr?: string; error?: string }\<close>:
  an optional field is absent (\<open>None\<close>) or holds a value of its type.\<close>

record worker_response =
  ok :: bool
  exitCode :: "int option"
  stdout :: "string option"
  stderr :: "string option"
  error :: "string option"

text \<open>\<^verbatim>\<open>ExecutionResult\<close>: the three fields \<^verbatim>\<open>toExecutionResult\<close> fills, and the
  further ones \<^verbatim>\<open>makeExecutionResult\<close> adds.\<close>

record execution_result =
  res_exitCode :: int
  res_stdout :: string
  res_stderr :: string

record provider_result = execution_result +
  res_sandboxId :: string
  res_provider :: string
  res_executionTime :: int

text \<open>\<^verbatim>\<open>a ?? b\<close> on an optional field.\<close>

definition orElse :: "'a option \<Rightarrow> 'a \<Rightarrow> 'a" where
  "orElse a b = (case a of Some v \<Rightarrow> v | None \<Rightarrow> b)"

text \<open>index.ts\<close>

definition makeExecutionResult :: "string \<Rightarrow> worker_response \<Rightarrow> provider_result" where
  "makeExecutionResult sandboxId response =
     \<lparr> res_exitCode =
         (case exitCode response of
            Some n \<Rightarrow> n
          | None \<Rightarrow> if ok response then 0 else 1),
       res_stdout = orElse (stdout response) [],
       res_stderr =
         orElse (stderr response) (if ok response then [] else orElse (error response) []),
       res_sandboxId = sandboxId,
       res_provider = ''@computesdk/browser'',
       res_executionTime = 0 \<rparr>"

text \<open>The variant beside the filesystem adapter.\<close>

definition toExecutionResult :: "worker_response \<Rightarrow> execution_result" where
  "toExecutionResult res =
     \<lparr> res_exitCode = (case exitCode res of Some n \<Rightarrow> n | None \<Rightarrow> if ok res then 0 else 1),
       res_stdout = orElse (stdout res) [],
       res_stderr = orElse (stderr res) (if ok res then [] else orElse (error res) []) \<rparr>"

section \<open>Sandbox registry and lifecycle\<close>

record sandbox =
  sb_id :: string
  runtime :: string
  worker :: nat

text \<open>
  The provider's module state: the registry (a \<^verbatim>\<open>Map\<close>, kept in insertion order), the
  number of workers spawned (a worker is named by its number), the number of UUIDs drawn
  from \<^verbatim>\<open>crypto.randomUUID\<close>, and the workers on which \<^verbatim>\<open>terminate\<close> was called.
\<close>

record provider_state =
  registry :: "(string \<times> sandbox) list"
  spawned :: nat
  uuids_drawn :: nat
  terminated :: "nat list"

text \<open>The surroundings: the UUIDs \<^verbatim>\<open>crypto.randomUUID\<close> returns, the messages a worker
  delivers after its \<^verbatim>\<open>init\<close> request was posted, and whether \<^verbatim>\<open>terminate\<close> throws.\<close>

record provider_env =
  randomUUID :: "nat \<Rightarrow> string"
  worker_messages :: "nat \<Rightarrow> jsval list"
  terminate :: "nat \<Rightarrow> thrown option"

record browser_config =
  cfg_runtime :: "string option"
  pyodideIndexURL :: "string option"

record create_options =
  opt_runtime :: "string option"
  opt_sandboxId :: "string option"

definition optional_string :: "string option \<Rightarrow> jsval" where
  "optional_string s = (case s of Some v \<Rightarrow> JStr v | None \<Rightarrow> JUndefined)"

text \<open>\<^verbatim>\<open>(options?.runtime as SupportedRuntime) ?? config.runtime ?? 'python'\<close>\<close>

definition requested_runtime :: "browser_config \<Rightarrow> create_options option \<Rightarrow> string" where
  "requested_runtime config options =
     orElse (case options of Some opts \<Rightarrow> opt_runtime opts | None \<Rightarrow> None)
       (orElse (cfg_runtime config) ''python'')"

text \<open>\<^verbatim>\<open>await callWorker(worker, { type: 'init', indexURL })\<close> on the fresh worker's channel:
  the value the call resolves with, \<open>None\<close> when no delivered message matches.\<close>

definition await_init :: "string \<Rightarrow> jsval \<Rightarrow> jsval list \<Rightarrow> jsval option" where
  "await_init cid indexURL ms =
     (case callWorker cid [(''type'', JStr ''init''), (''indexURL'', indexURL)] new_channel of
        (k, ch) \<Rightarrow> settled (fold deliver ms ch) k)"

definition create ::
    "provider_env \<Rightarrow> browser_config \<Rightarrow> create_options option \<Rightarrow> provider_state
      \<Rightarrow> (sandbox \<times> string) settle \<times> provider_state" where
  \<open>create env config options st =
     (let rt = requested_runtime config options in
      if rt \<noteq> ''python'' then
        (Rejected (ErrorObj ''Error''
           (''Unsupported runtime "'' @ rt @ ''". Only "python" is supported.'')), st)
      else
        (let w = spawned st;
             st1 = st\<lparr> spawned := Suc (spawned st) \<rparr>;
             (sandboxId, st2) =
               (case (case options of Some opts \<Rightarrow> opt_sandboxId opts | None \<Rightarrow> None) of
                  Some s \<Rightarrow> (s, st1)
                | None \<Rightarrow>
                    (''browser-sb-'' @ randomUUID env (uuids_drawn st1),
                     st1\<lparr> uuids_drawn := Suc (uuids_drawn st1) \<rparr>));
             cid = randomUUID env (uuids_drawn st2);
             st3 = st2\<lparr> uuids_drawn := Suc (uuids_drawn st2) \<rparr>
         in case await_init cid (optional_string (pyodideIndexURL config)) (worker_messages env w) of
              None \<Rightarrow> (Never, st3)
            | Some reply \<Rightarrow>
                (let sb = \<lparr> sb_id = sandboxId, runtime = ''python'', worker = w \<rparr>
                 in (Resolved (sb, sandboxId),
                     st3\<lparr> registry := AList.update sandboxId sb (registry st3) \<rparr>))))\<close>

definition getById :: "string \<Rightarrow> provider_state \<Rightarrow> (sandbox \<times> string) option" where
  "getById sandboxId st =
     (case map_of (registry st) sandboxId of Some sb \<Rightarrow> Some (sb, sandboxId) | None \<Rightarrow> None)"

text \<open>\<^verbatim>\<open>destroy\<close>: the fault it rejects with, if any, and the state afterwards. The
  \<^verbatim>\<open>finally\<close> block runs whether \<^verbatim>\<open>terminate\<close> throws or not; the fault then
  leaves the function.\<close>

definition destroy :: "provider_env \<Rightarrow> string \<Rightarrow> provider_state \<Rightarrow> thrown option \<times> provider_state" where
  "destroy env sandboxId st =
     (case map_of (registry st) sandboxId of
        Some sb \<Rightarrow>
          (terminate env (worker sb),
           st\<lparr> terminated := terminated st @ [worker sb],
               registry := AList.delete sandboxId (registry st) \<rparr>)
      | None \<Rightarrow> (None, st))"

text \<open>index.ts\<close>

definition runCommand :: "sandbox \<Rightarrow> string \<Rightarrow> provider_result" where
  \<open>runCommand sb command =
     makeExecutionResult (sb_id sb)
       \<lparr> ok = False, exitCode = Some 127, stdout = None,
         stderr = Some (''runCommand("'' @ command @ ''") not supported in browser''),
         error = None \<rparr>\<close>

text \<open>The variant beside the filesystem adapter.\<close>

definition runCommand_variant :: "sandbox \<Rightarrow> string \<Rightarrow> execution_result" where
  \<open>runCommand_variant sb command =
     \<lparr> res_exitCode = 127, res_stdout = [],
       res_stderr = ''runCommand("'' @ command @ ''") is not supported in the browser provider'' \<rparr>\<close>


section \<open>Filesystem facade\<close>

text \<open>\<^verbatim>\<open>(p && p.startsWith('/') ? p : `/${p || ''}`)\<close>\<close>

definition normalizePath :: "string \<Rightarrow> string" where
  "normalizePath p =
     (if p \<noteq> [] \<and> startsWith p ''/'' then p else ''/'' @ (if p \<noteq> [] then p else []))"

datatype encoding = Utf8 | Binary

datatype file_data = Text string | Bytes "nat list"

text \<open>A directory-listing record of the service, and the provider's \<^verbatim>\<open>FileEntry\<close>.\<close>

record dir_record =
  d_name :: "string option"
  d_path :: "string option"
  d_isFile :: "bool option"
  d_isDirectory :: "bool option"
  d_size :: "int option"
  d_mtime :: "int option"
  d_kind :: "string option"

record file_entry =
  fe_name :: string
  fe_path :: string
  fe_isDirectory :: bool
  fe_size :: int
  fe_lastModified :: int

text \<open>The service, as \<^verbatim>\<open>OPFSService\<close> declares it; every operation may resolve, reject
  (or throw) or never settle. \<open>createWorker\<close> says whether building the service handle
  throws (\<open>None\<close>: it returns the handle). \<open>text_decode\<close> is the platform's
  \<^verbatim>\<open>TextDecoder\<close>, \<open>date_now\<close> its clock.\<close>

record opfs_service =
  svc_readFile :: "string \<Rightarrow> encoding \<Rightarrow> file_data settle"
  svc_writeFile :: "string \<Rightarrow> file_data \<Rightarrow> unit settle"
  svc_mkdir :: "string \<Rightarrow> bool \<Rightarrow> unit settle"
  svc_readDir :: "string \<Rightarrow> dir_record list settle"
  svc_stat :: "string \<Rightarrow> unit settle"
  svc_remove :: "string \<Rightarrow> bool \<Rightarrow> unit settle"
  svc_watch :: "string \<Rightarrow> bool \<Rightarrow> unit settle"
  createWorker :: "thrown option"
  text_decode :: "nat list \<Rightarrow> string"
  date_now :: int

text \<open>The calls made on the service, with their arguments.\<close>

datatype fs_call =
    ReadFile string encoding
  | WriteFile string file_data
  | Mkdir string bool
  | ReadDir string
  | Stat string
  | Remove string bool
  | Watch string bool

text \<open>The adapter's module state: whether the singleton \<^verbatim>\<open>__fs\<close> exists, how often
  \<^verbatim>\<open>createWorker\<close> was called, and the service calls made so far.\<close>

record fs_state =
  fs_present :: bool
  fs_created :: nat
  fs_calls :: "fs_call list"

text \<open>\<^verbatim>\<open>getFS()\<close>: the fault it throws, if any, and the state afterwards. When
  \<^verbatim>\<open>createWorker\<close> throws, \<^verbatim>\<open>__fs\<close> stays \<^verbatim>\<open>null\<close>.\<close>

definition getFS :: "opfs_service \<Rightarrow> fs_state \<Rightarrow> thrown option \<times> fs_state" where
  "getFS svc st =
     (if \<not> fs_present st then
        (case createWorker svc of
           None \<Rightarrow> (None, st\<lparr> fs_present := True, fs_created := Suc (fs_created st) \<rparr>)
         | Some e \<Rightarrow> (Some e, st\<lparr> fs_created := Suc (fs_created st) \<rparr>))
      else (None, st))"

text \<open>\<^verbatim>\<open>const fs = getFS();\<close> at the head of an \<^verbatim>\<open>async\<close> operation, followed by its
  body: a throw of \<^verbatim>\<open>getFS\<close> rejects the operation before the body runs.\<close>

definition with_fs ::
    "opfs_service \<Rightarrow> fs_state \<Rightarrow> (fs_state \<Rightarrow> 'a settle \<times> fs_state) \<Rightarrow> 'a settle \<times> fs_state" where
  "with_fs svc st body =
     (case getFS svc st of
        (None, st1) \<Rightarrow> body st1
      | (Some e, st1) \<Rightarrow> (Rejected e, st1))"

definition call_fs :: "fs_call \<Rightarrow> fs_state \<Rightarrow> fs_state" where
  "call_fs c st = st\<lparr> fs_calls := fs_calls st @ [c] \<rparr>"

definition toUtf8String :: "opfs_service \<Rightarrow> file_data \<Rightarrow> string" where
  "toUtf8String svc d = (case d of Text s \<Rightarrow> s | Bytes bs \<Rightarrow> text_decode svc bs)"

definition toFileEntry :: "opfs_service \<Rightarrow> dir_record \<Rightarrow> file_entry" where
  "toFileEntry svc d =
     \<lparr> fe_name = orElse (d_name d) [],
       fe_path = orElse (d_path d) (normalizePath (orElse (d_name d) [])),
       fe_isDirectory =
         orElse (d_isDirectory d) (\<not> orElse (d_isFile d) False \<and> d_kind d = Some ''directory''),
       fe_size = orElse (d_size d) 0,
       fe_lastModified = orElse (d_mtime d) (date_now svc) \<rparr>"

definition then_map :: "('a \<Rightarrow> 'b) \<Rightarrow> 'a settle \<Rightarrow> 'b settle" where
  "then_map f r = (case r of Resolved v \<Rightarrow> Resolved (f v) | Rejected e \<Rightarrow> Rejected e | Never \<Rightarrow> Never)"

text \<open>\<^verbatim>\<open>browserFs\<close>: each operation with its result and the adapter state afterwards.\<close>

definition readFile :: "opfs_service \<Rightarrow> string \<Rightarrow> fs_state \<Rightarrow> string settle \<times> fs_state" where
  "readFile svc path st =
     with_fs svc st (\<lambda>st1.
       (then_map (toUtf8String svc) (svc_readFile svc (normalizePath path) Utf8),
        call_fs (ReadFile (normalizePath path) Utf8) st1))"

definition writeFile :: "opfs_service \<Rightarrow> string \<Rightarrow> string \<Rightarrow> fs_state \<Rightarrow> unit settle \<times> fs_state" where
  "writeFile svc path content st =
     with_fs svc st (\<lambda>st1.
       (svc_writeFile svc (normalizePath path) (Text content),
        call_fs (WriteFile (normalizePath path) (Text content)) st1))"

definition mkdir :: "opfs_service \<Rightarrow> string \<Rightarrow> fs_state \<Rightarrow> unit settle \<times> fs_state" where
  "mkdir svc path st =
     with_fs svc st (\<lambda>st1.
       (svc_mkdir svc (normalizePath path) True,
        call_fs (Mkdir (normalizePath path) True) st1))"

definition readdir :: "opfs_service \<Rightarrow> string \<Rightarrow> fs_state \<Rightarrow> file_entry list settle \<times> fs_state" where
  "readdir svc path st =
     with_fs svc st (\<lambda>st1.
       (then_map (map (toFileEntry svc)) (svc_readDir svc (normalizePath path)),
        call_fs (ReadDir (normalizePath path)) st1))"

text \<open>In \<^verbatim>\<open>exists\<close> the \<^verbatim>\<open>try\<close> block holds the \<^verbatim>\<open>stat\<close> call only; \<^verbatim>\<open>getFS()\<close> stands
  before it.\<close>

definition exists :: "opfs_service \<Rightarrow> string \<Rightarrow> fs_state \<Rightarrow> bool settle \<times> fs_state" where
  "exists svc path st =
     with_fs svc st (\<lambda>st1.
       ((case svc_stat svc (normalizePath path) of
           Resolved u \<Rightarrow> Resolved True
         | Rejected e \<Rightarrow> Resolved False
         | Never \<Rightarrow> Never),
        call_fs (Stat (normalizePath path)) st1))"

definition remove :: "opfs_service \<Rightarrow> string \<Rightarrow> fs_state \<Rightarrow> unit settle \<times> fs_state" where
  "remove svc path st =
     with_fs svc st (\<lambda>st1.
       (svc_remove svc (normalizePath path) True,
        call_fs (Remove (normalizePath path) True) st1))"

section \<open>Change notifications\<close>

text \<open>
  The \<^verbatim>\<open>handler\<close> closure of \<^verbatim>\<open>watchFS\<close>, run on an event of the broadcast channel
  whose data is \<open>msg\<close>: the argument it calls \<^verbatim>\<open>onChange\<close> with, \<open>None\<close> when it
  does not call it. \<open>hasOnChange\<close> says whether the caller passed a callback. The handler
  reads properties only of a truthy \<open>msg\<close>, so no read can throw.
\<close>

definition handler :: "bool \<Rightarrow> jsval \<Rightarrow> jsval option" where
  "handler hasOnChange msg =
     (if \<not> js_truthy msg \<or> \<not> hasOnChange then None
      else if js_opt_field msg ''type'' = JStr ''rename'' \<and> js_truthy (js_opt_field msg ''from'')
              \<and> js_truthy (js_opt_field msg ''to'') then
        Some (JObj [(''event'', JStr ''rename''), (''from'', js_opt_field msg ''from''),
                    (''to'', js_opt_field msg ''to'')])
      else if (js_opt_field msg ''type'' = JStr ''create'' \<or> js_opt_field msg ''type'' = JStr ''modify'')
              \<and> js_truthy (js_opt_field msg ''path'') then
        Some (JObj [(''event'', js_opt_field msg ''type''), (''path'', js_opt_field msg ''path'')])
      else if js_opt_field msg ''type'' = JStr ''remove'' \<and> js_truthy (js_opt_field msg ''path'') then
        Some (JObj [(''event'', JStr ''remove''), (''path'', js_opt_field msg ''path'')])
      else None)"

text \<open>\<^verbatim>\<open>watchFS(path, onChange)\<close> up to the subscription: the \<^verbatim>\<open>watch\<close> call on the
  service, awaited.\<close>

definition watchFS :: "opfs_service \<Rightarrow> string option \<Rightarrow> fs_state \<Rightarrow> unit settle \<times> fs_state" where
  "watchFS svc path st =
     with_fs svc st (\<lambda>st1.
       (svc_watch svc (normalizePath (orElse path ''/'')) True,
        call_fs (Watch (normalizePath (orElse path ''/'')) True) st1))"


section \<open>Example surroundings\<close>

text \<open>Concrete surroundings and states on which the results below are evaluated.\<close>

definition example_service :: opfs_service where
  "example_service =
     \<lparr> svc_readFile = (\<lambda>p enc. Resolved (Text p)),
       svc_writeFile = (\<lambda>p d. Resolved ()),
       svc_mkdir = (\<lambda>p r. Resolved ()),
       svc_readDir = (\<lambda>p. Resolved []),
       svc_stat = (\<lambda>p. if p = ''/a.txt'' then Resolved ()
                        else Rejected (ErrorObj ''NotFoundError'' ''no such entry'')),
       svc_remove = (\<lambda>p r. Resolved ()),
       svc_watch = (\<lambda>p r. Resolved ()),
       createWorker = None,
       text_decode = (\<lambda>bs. []),
       date_now = 0 \<rparr>"

text \<open>The same service where no worker can be constructed.\<close>

definition no_worker_service :: opfs_service where
  "no_worker_service =
     example_service\<lparr> createWorker := Some (ErrorObj ''ReferenceError'' ''Worker is not defined'') \<rparr>"

definition fresh_fs :: fs_state where
  "fresh_fs = \<lparr> fs_present = False, fs_created = 0, fs_calls = [] \<rparr>"

definition example_sandbox :: sandbox where
  "example_sandbox = \<lparr> sb_id = ''sb-1'', runtime = ''python'', worker = 0 \<rparr>"

definition example_provider :: provider_state where
  "example_provider =
     \<lparr> registry = [(''sb-1'', example_sandbox)], spawned = 1, uuids_drawn = 1, terminated = [] \<rparr>"

text \<open>Surroundings in which \<^verbatim>\<open>terminate\<close> throws and the worker never replies.\<close>

definition failing_env :: provider_env where
  "failing_env =
     \<lparr> randomUUID = (\<lambda>n. digits10 n),
       worker_messages = (\<lambda>w. []),
       terminate = (\<lambda>w. Some (ErrorObj ''Error'' ''terminate failed'')) \<rparr>"

text \<open>Worker surroundings: everything works; no script can be fetched; the scripts load
  but the runtime's load promise rejects with an Error that has no message; the call of
  the loader throws; the submitted code never finishes.\<close>

definition healthy_env :: worker_env where
  "healthy_env =
     \<lparr> importScripts = (\<lambda>url. None),
       loadPyodide = (\<lambda>url. Inr (Resolved ())),
       runPythonAsync = (\<lambda>code. Resolved [JNum 0, JStr ''pyodide ready'', JStr []]),
       typeError = ErrorObj ''TypeError'' ''cannot read properties'' \<rparr>"

definition offline_env :: worker_env where
  "offline_env = healthy_env\<lparr> importScripts := (\<lambda>url. Some (ErrorObj ''NetworkError'' ''failed to load'')) \<rparr>"

definition broken_runtime_env :: worker_env where
  "broken_runtime_env =
     healthy_env\<lparr> loadPyodide := (\<lambda>url. Inr (Rejected (ErrorObj ''Error'' []))) \<rparr>"

definition throwing_loader_env :: worker_env where
  "throwing_loader_env =
     healthy_env\<lparr> loadPyodide := (\<lambda>url. Inl (ErrorObj ''TypeError'' ''loadPyodide is not a function'')) \<rparr>"

definition looping_env :: worker_env where
  "looping_env = healthy_env\<lparr> runPythonAsync := (\<lambda>code. Never) \<rparr>"

section \<open>Correlation on the RPC channel\<close>


lemma listener_frame:
  "ncalls (listener d l ch) = ncalls ch" "posted (listener d l ch) = posted ch"
  by (simp_all add: listener_def resolve_def)

lemma listener_listeners:
  "listeners (listener d l ch) =
     filter (\<lambda>l'. \<not> (l = l' \<and> js_opt_field d ''id'' = JStr (snd l))) (listeners ch)"
  by (simp add: listener_def resolve_def removeAll_filter_not_eq)

lemma listener_settled:
  "settled (listener d l ch) k =
     (if settled ch k = None \<and> fst l = k \<and> js_opt_field d ''id'' = JStr (snd l)
      then Some d else settled ch k)"
  by (simp add: listener_def resolve_def)

lemma fold_listener_frame:
  "ncalls (fold (listener d) xs ch) = ncalls ch" "posted (fold (listener d) xs ch) = posted ch"
  by (induction xs arbitrary: ch) (simp_all add: listener_frame)

lemma fold_listener_listeners:
  "listeners (fold (listener d) xs ch) =
     filter (\<lambda>l. \<not> (l \<in> set xs \<and> js_opt_field d ''id'' = JStr (snd l))) (listeners ch)"
proof (induction xs arbitrary: ch)
  case Nil
  then show ?case by simp
next
  case (Cons x xs)
  have "filter (\<lambda>l. \<not> (l \<in> set xs \<and> js_opt_field d ''id'' = JStr (snd l)))
          (filter (\<lambda>l'. \<not> (x = l' \<and> js_opt_field d ''id'' = JStr (snd x))) (listeners ch)) =
        filter (\<lambda>l. \<not> (l \<in> set (x # xs) \<and> js_opt_field d ''id'' = JStr (snd l))) (listeners ch)"
    unfolding filter_filter by (rule filter_cong [OF refl]) auto
  then show ?case
    by (simp only: fold_simps Cons.IH listener_listeners)
qed

lemma fold_listener_settled:
  "settled (fold (listener d) xs ch) k =
     (if settled ch k = None \<and> (\<exists>l \<in> set xs. fst l = k \<and> js_opt_field d ''id'' = JStr (snd l))
      then Some d else settled ch k)"
proof (induction xs arbitrary: ch)
  case Nil
  then show ?case by simp
next
  case (Cons x xs)
  show ?case
    unfolding fold_simps Cons.IH listener_settled by auto
qed


lemma deliver_frame:
  "ncalls (deliver d ch) = ncalls ch" "posted (deliver d ch) = posted ch"
  by (simp_all add: deliver_def fold_listener_frame)

lemma deliver_listeners:
  "listeners (deliver d ch) =
     filter (\<lambda>l. js_opt_field d ''id'' \<noteq> JStr (snd l)) (listeners ch)"
  unfolding deliver_def fold_listener_listeners by (rule filter_cong [OF refl]) simp

lemma deliver_settled:
  "settled (deliver d ch) k =
     (if settled ch k = None \<and>
         (\<exists>l \<in> set (listeners ch). fst l = k \<and> js_opt_field d ''id'' = JStr (snd l))
      then Some d else settled ch k)"
  unfolding deliver_def by (rule fold_listener_settled)

lemma callWorker_fields:
  "fst (callWorker cid msg ch) = ncalls ch"
  "listeners (snd (callWorker cid msg ch)) = listeners ch @ [(ncalls ch, cid)]"
  "settled (snd (callWorker cid msg ch)) = settled ch"
  "ncalls (snd (callWorker cid msg ch)) = Suc (ncalls ch)"
  "posted (snd (callWorker cid msg ch)) = posted ch @ [JObj (js_spread [(''id'', JStr cid)] msg)]"
  by (simp_all add: callWorker_def)

text \<open>Handles are handed out in order: a reachable channel has no listener and no settled
  promise at or beyond \<open>ncalls\<close>.\<close>

lemma chan_step_fresh:
  assumes "\<forall>l \<in> set (listeners ch). fst l < ncalls ch" "\<forall>k \<ge> ncalls ch. settled ch k = None"
  shows "(\<forall>l \<in> set (listeners (chan_step ev ch)). fst l < ncalls (chan_step ev ch)) \<and>
         (\<forall>k \<ge> ncalls (chan_step ev ch). settled (chan_step ev ch) k = None)"
proof (cases ev)
  case (Call cid msg)
  with assms show ?thesis by (auto simp: callWorker_fields)
next
  case (Deliver d)
  with assms show ?thesis
    by (auto simp: deliver_frame deliver_listeners deliver_settled)
qed

lemma chan_run_fresh:
  assumes "\<forall>l \<in> set (listeners ch). fst l < ncalls ch" "\<forall>k \<ge> ncalls ch. settled ch k = None"
  shows "(\<forall>l \<in> set (listeners (chan_run evs ch)). fst l < ncalls (chan_run evs ch)) \<and>
         (\<forall>k \<ge> ncalls (chan_run evs ch). settled (chan_run evs ch) k = None)"
  using assms
proof (induction evs arbitrary: ch)
  case Nil
  then show ?case by (simp add: chan_run_def)
next
  case (Cons ev evs)
  from chan_step_fresh [OF Cons.prems, of ev] Cons.IH [of "chan_step ev ch"]
  show ?case by (simp add: chan_run_def)
qed

text \<open>A promise whose listener is gone keeps its state.\<close>

lemma chan_step_done:
  assumes "k < ncalls ch" "\<forall>l \<in> set (listeners ch). fst l \<noteq> k"
  shows "k < ncalls (chan_step ev ch) \<and> (\<forall>l \<in> set (listeners (chan_step ev ch)). fst l \<noteq> k) \<and>
         settled (chan_step ev ch) k = settled ch k"
proof (cases ev)
  case (Call cid msg)
  with assms show ?thesis by (auto simp: callWorker_fields)
next
  case (Deliver d)
  with assms show ?thesis
    by (auto simp: deliver_frame deliver_listeners deliver_settled)
qed

lemma chan_run_done:
  assumes "k < ncalls ch" "\<forall>l \<in> set (listeners ch). fst l \<noteq> k"
  shows "(\<forall>l \<in> set (listeners (chan_run evs ch)). fst l \<noteq> k) \<and>
         settled (chan_run evs ch) k = settled ch k"
  using assms
proof (induction evs arbitrary: ch)
  case Nil
  then show ?case by (simp add: chan_run_def)
next
  case (Cons ev evs)
  from chan_step_done [OF Cons.prems, of ev] Cons.IH [of "chan_step ev ch"]
  show ?case by (simp add: chan_run_def)
qed

text \<open>A pending call: registered, unsettled, and the only listener of its promise.\<close>

lemma chan_run_pending:
  assumes "k < ncalls ch" "settled ch k = None" "(k, cid) \<in> set (listeners ch)"
    and "\<forall>l \<in> set (listeners ch). fst l = k \<longrightarrow> snd l = cid"
  shows "settled (chan_run evs ch) k = find (\<lambda>d. js_opt_field d ''id'' = JStr cid) (delivered evs) \<and>
         ((k, cid) \<in> set (listeners (chan_run evs ch)) \<longleftrightarrow> settled (chan_run evs ch) k = None) \<and>
         (\<forall>l \<in> set (listeners (chan_run evs ch)). fst l = k \<longrightarrow> snd l = cid)"
  using assms
proof (induction evs arbitrary: ch)
  case Nil
  then show ?case by (simp add: chan_run_def)
next
  case (Cons ev evs)
  show ?case
  proof (cases ev)
    case (Call cid' msg)
    let ?ch = "snd (callWorker cid' msg ch)"
    have "k < ncalls ?ch" "settled ?ch k = None" "(k, cid) \<in> set (listeners ?ch)"
      "\<forall>l \<in> set (listeners ?ch). fst l = k \<longrightarrow> snd l = cid"
      using Cons.prems by (auto simp: callWorker_fields)
    from Cons.IH [OF this] Call show ?thesis by (simp add: chan_run_def)
  next
    case (Deliver d)
    let ?ch = "deliver d ch"
    show ?thesis
    proof (cases "js_opt_field d ''id'' = JStr cid")
      case True
      have a: "k < ncalls ?ch" using Cons.prems by (simp add: deliver_frame)
      have b: "\<forall>l \<in> set (listeners ?ch). fst l \<noteq> k"
        using Cons.prems True by (auto simp: deliver_listeners)
      have "\<exists>l \<in> set (listeners ch). fst l = k \<and> js_opt_field d ''id'' = JStr (snd l)"
        using Cons.prems(3) True by (intro bexI [of _ "(k, cid)"]) simp_all
      then have c: "settled ?ch k = Some d"
        using Cons.prems(2) by (simp add: deliver_settled)
      from chan_run_done [OF a b, of evs] c True Deliver show ?thesis
        by (auto simp: chan_run_def)
    next
      case False
      have "k < ncalls ?ch" "settled ?ch k = None" "(k, cid) \<in> set (listeners ?ch)"
        "\<forall>l \<in> set (listeners ?ch). fst l = k \<longrightarrow> snd l = cid"
        using Cons.prems False by (auto simp: deliver_frame deliver_listeners deliver_settled)
      from Cons.IH [OF this] Deliver False show ?thesis by (simp add: chan_run_def)
    qed
  qed
qed


lemma fold_listener_ignored:
  "\<forall>l \<in> set xs. js_opt_field d ''id'' \<noteq> JStr (snd l) \<Longrightarrow> fold (listener d) xs ch = ch"
  by (induction xs) (simp_all add: listener_def)

lemma map_of_js_spread_other:
  "k \<notin> fst ` set extra \<Longrightarrow> map_of (js_spread base extra) k = map_of base k"
  unfolding js_spread_def
  by (induction extra arbitrary: base) (auto simp: update_conv')

lemma chan_run_new_fresh:
  "(\<forall>l \<in> set (listeners (chan_run evs new_channel)). fst l < ncalls (chan_run evs new_channel)) \<and>
   (\<forall>k \<ge> ncalls (chan_run evs new_channel). settled (chan_run evs new_channel) k = None)"
  by (rule chan_run_fresh) (simp_all add: new_channel_def)

text \<open>
  Claim C1. Take any history of the channel (earlier calls and deliveries, \<open>pre\<close>),
  a call of \<^verbatim>\<open>callWorker\<close> that draws the correlation id \<open>cid\<close>, and anything that
  happens afterwards (\<open>post\<close>: deliveries and further calls, interleaved in any order).
  The promise of the call is resolved with the first message delivered after the call whose
  \<^verbatim>\<open>id\<close> is \<open>cid\<close>, and stays unsettled when there is none; its listener is registered
  exactly as long as the promise is unsettled; the response carries the call's own id and
  so never the id of a call that drew another one; a message matching no registered
  listener changes nothing; and the posted request carries \<open>cid\<close> as its \<^verbatim>\<open>id\<close>
  whenever the payload has no \<^verbatim>\<open>id\<close> field of its own (both call sites).
\<close>

theorem callWorker_resolves_first_match:
  assumes "ch = chan_run pre new_channel"
    and "(k, ch1) = callWorker cid msg ch"
    and "ch2 = chan_run post ch1"
  shows "settled ch2 k = find (\<lambda>d. js_opt_field d ''id'' = JStr cid) (delivered post) \<and>
         ((k, cid) \<in> set (listeners ch2) \<longleftrightarrow> settled ch2 k = None) \<and>
         (\<forall>r. settled ch2 k = Some r \<longrightarrow> js_opt_field r ''id'' = JStr cid) \<and>
         (\<forall>r cid'. settled ch2 k = Some r \<and> cid' \<noteq> cid \<longrightarrow> js_opt_field r ''id'' \<noteq> JStr cid') \<and>
         (\<forall>d. (\<forall>l \<in> set (listeners ch2). js_opt_field d ''id'' \<noteq> JStr (snd l)) \<longrightarrow>
              deliver d ch2 = ch2) \<and>
         (''id'' \<notin> fst ` set msg \<longrightarrow> js_opt_field (last (posted ch1)) ''id'' = JStr cid)"
proof -
  have k: "k = ncalls ch" and ch1: "ch1 = snd (callWorker cid msg ch)"
    using assms(2) by (simp_all add: callWorker_def)
  have fresh: "\<forall>l \<in> set (listeners ch). fst l < ncalls ch" "\<forall>j \<ge> ncalls ch. settled ch j = None"
    using chan_run_new_fresh [of pre] assms(1) by simp_all
  have pending: "k < ncalls ch1" "settled ch1 k = None" "(k, cid) \<in> set (listeners ch1)"
    "\<forall>l \<in> set (listeners ch1). fst l = k \<longrightarrow> snd l = cid"
    using fresh by (auto simp: k ch1 callWorker_fields)
  from chan_run_pending [OF pending, of post]
  have first: "settled ch2 k = find (\<lambda>d. js_opt_field d ''id'' = JStr cid) (delivered post)"
    and reg: "(k, cid) \<in> set (listeners ch2) \<longleftrightarrow> settled ch2 k = None"
    by (simp_all add: assms(3))
  have own: "js_opt_field r ''id'' = JStr cid" if "settled ch2 k = Some r" for r
    using that first by (auto simp: find_Some_iff)
  have ignored: "deliver d ch2 = ch2"
    if "\<forall>l \<in> set (listeners ch2). js_opt_field d ''id'' \<noteq> JStr (snd l)" for d
    unfolding deliver_def using that by (rule fold_listener_ignored)
  have sent: "js_opt_field (last (posted ch1)) ''id'' = JStr cid" if "''id'' \<notin> fst ` set msg"
    using map_of_js_spread_other [OF that, of "[(''id'', JStr cid)]"]
    by (simp add: ch1 callWorker_fields)
  from first reg own ignored sent show ?thesis by auto
qed

theorem callWorker_resolves_first_match_witness:
  "settled
     (chan_run
        [Deliver (JObj [(''id'', JStr ''a''), (''ok'', JBool True)]),
         Deliver (JObj [(''ok'', JBool True)]),
         Deliver (JObj [(''id'', JStr ''b''), (''exitCode'', JNum 0)]),
         Deliver (JObj [(''id'', JStr ''b''), (''exitCode'', JNum 1)])]
        (snd (callWorker ''b'' [(''type'', JStr ''runCode'')]
               (chan_run [Call ''a'' [(''type'', JStr ''init'')]] new_channel))))
     (fst (callWorker ''b'' [(''type'', JStr ''runCode'')]
            (chan_run [Call ''a'' [(''type'', JStr ''init'')]] new_channel)))
   = Some (JObj [(''id'', JStr ''b''), (''exitCode'', JNum 0)])"
  using callWorker_resolves_first_match [where cid = "''b''"
      and msg = "[(''type'', JStr ''runCode'')]" and pre = "[Call ''a'' [(''type'', JStr ''init'')]]"
      and post = "[Deliver (JObj [(''id'', JStr ''a''), (''ok'', JBool True)]),
           Deliver (JObj [(''ok'', JBool True)]),
           Deliver (JObj [(''id'', JStr ''b''), (''exitCode'', JNum 0)]),
           Deliver (JObj [(''id'', JStr ''b''), (''exitCode'', JNum 1)])]",
      OF refl prod.collapse refl]
  by simp


section \<open>Result normalisation of the two provider variants\<close>

text \<open>
  Claim C9. On every worker response \<^verbatim>\<open>makeExecutionResult\<close> and
  \<^verbatim>\<open>toExecutionResult\<close> produce the same exit code, standard output and standard
  error: the result of the first, cut down to these three fields, is the result of the
  second. The exit code is the response's when it has one, else 0 when \<^verbatim>\<open>ok\<close> and 1
  otherwise; the output defaults to the empty string; the error output is the response's
  \<^verbatim>\<open>stderr\<close>, else empty when \<^verbatim>\<open>ok\<close>, else the \<^verbatim>\<open>error\<close> string, else empty.
\<close>

theorem normalization_variants_agree:
  "execution_result.truncate (makeExecutionResult sandboxId r) = toExecutionResult r \<and>
   res_exitCode (makeExecutionResult sandboxId r) = res_exitCode (toExecutionResult r) \<and>
   res_stdout (makeExecutionResult sandboxId r) = res_stdout (toExecutionResult r) \<and>
   res_stderr (makeExecutionResult sandboxId r) = res_stderr (toExecutionResult r) \<and>
   res_exitCode (toExecutionResult r) =
     (case exitCode r of Some n \<Rightarrow> n | None \<Rightarrow> if ok r then 0 else 1) \<and>
   res_stdout (toExecutionResult r) = (case stdout r of Some s \<Rightarrow> s | None \<Rightarrow> []) \<and>
   res_stderr (toExecutionResult r) =
     (case stderr r of
        Some s \<Rightarrow> s
      | None \<Rightarrow> if ok r then [] else (case error r of Some e \<Rightarrow> e | None \<Rightarrow> []))"
  by (simp add: makeExecutionResult_def toExecutionResult_def orElse_def
      execution_result.truncate_def execution_result.defs provider_result.defs
      split: option.split)

section \<open>Path normalisation in the filesystem facade\<close>

lemma normalizePath_cases:
  "normalizePath p = (if p \<noteq> [] \<and> hd p = CHR ''/'' then p else CHR ''/'' # p)"
  by (cases p) (simp_all add: normalizePath_def startsWith_def)

lemma normalizePath_slash: "normalizePath p \<noteq> [] \<and> hd (normalizePath p) = CHR ''/''"
  by (simp add: normalizePath_cases)

lemma normalizePath_idem: "normalizePath (normalizePath p) = normalizePath p"
  by (simp add: normalizePath_cases)

lemma getFS_outcome: "fst (getFS svc st) = (if fs_present st then None else createWorker svc)"
  by (simp add: getFS_def split: option.split)

lemma getFS_calls: "fs_calls (snd (getFS svc st)) = fs_calls st"
  by (simp add: getFS_def split: option.split)

lemma with_fs_result:
  "fst (with_fs svc st body) =
     (case fst (getFS svc st) of None \<Rightarrow> fst (body (snd (getFS svc st))) | Some e \<Rightarrow> Rejected e)"
  by (cases "getFS svc st") (simp add: with_fs_def split: option.split)

lemma with_fs_calls:
  assumes "\<And>st1. fs_calls (snd (body st1)) = fs_calls st1 @ [c]"
  shows "fs_calls (snd (with_fs svc st body)) =
     fs_calls st @ (case fst (getFS svc st) of None \<Rightarrow> [c] | Some e \<Rightarrow> [])"
  using getFS_calls [of svc st] assms
  by (cases "getFS svc st") (simp add: with_fs_def split: option.split)

text \<open>
  Claim C6. Each of the six operations first obtains the service handle. When that
  succeeds (the handle exists already, or \<^verbatim>\<open>createWorker\<close> returns it) the operation
  makes exactly one call on the service, and the path of that call (both the logged one
  and the one whose result the operation returns) is \<open>normalizePath p\<close>: \<open>p\<close> itself
  when it is non-empty and starts with \<^verbatim>\<open>/\<close>, and \<^verbatim>\<open>/\<close> prepended to \<open>p\<close> otherwise.
  When \<^verbatim>\<open>createWorker\<close> throws, the operation rejects with that fault and calls nothing,
  so no path other than the normalised one is ever passed. The normalised path always
  begins with \<^verbatim>\<open>/\<close>, normalising is idempotent, and \<^verbatim>\<open>readFile("foo.txt")\<close> and
  \<^verbatim>\<open>readFile("/foo.txt")\<close> are the same call with the same result.
\<close>

theorem filesystem_paths_normalized:
  "fs_calls (snd (readFile svc p st)) =
     fs_calls st @ (case fst (getFS svc st) of
                      None \<Rightarrow> [ReadFile (normalizePath p) Utf8] | Some e \<Rightarrow> []) \<and>
   fs_calls (snd (writeFile svc p content st)) =
     fs_calls st @ (case fst (getFS svc st) of
                      None \<Rightarrow> [WriteFile (normalizePath p) (Text content)] | Some e \<Rightarrow> []) \<and>
   fs_calls (snd (mkdir svc p st)) =
     fs_calls st @ (case fst (getFS svc st) of
                      None \<Rightarrow> [Mkdir (normalizePath p) True] | Some e \<Rightarrow> []) \<and>
   fs_calls (snd (readdir svc p st)) =
     fs_calls st @ (case fst (getFS svc st) of
                      None \<Rightarrow> [ReadDir (normalizePath p)] | Some e \<Rightarrow> []) \<and>
   fs_calls (snd (exists svc p st)) =
     fs_calls st @ (case fst (getFS svc st) of
                      None \<Rightarrow> [Stat (normalizePath p)] | Some e \<Rightarrow> []) \<and>
   fs_calls (snd (remove svc p st)) =
     fs_calls st @ (case fst (getFS svc st) of
                      None \<Rightarrow> [Remove (normalizePath p) True] | Some e \<Rightarrow> []) \<and>
   fst (readFile svc p st) =
     (case fst (getFS svc st) of
        None \<Rightarrow> then_map (toUtf8String svc) (svc_readFile svc (normalizePath p) Utf8)
      | Some e \<Rightarrow> Rejected e) \<and>
   fst (writeFile svc p content st) =
     (case fst (getFS svc st) of
        None \<Rightarrow> svc_writeFile svc (normalizePath p) (Text content) | Some e \<Rightarrow> Rejected e) \<and>
   fst (mkdir svc p st) =
     (case fst (getFS svc st) of
        None \<Rightarrow> svc_mkdir svc (normalizePath p) True | Some e \<Rightarrow> Rejected e) \<and>
   fst (readdir svc p st) =
     (case fst (getFS svc st) of
        None \<Rightarrow> then_map (map (toFileEntry svc)) (svc_readDir svc (normalizePath p))
      | Some e \<Rightarrow> Rejected e) \<and>
   fst (remove svc p st) =
     (case fst (getFS svc st) of
        None \<Rightarrow> svc_remove svc (normalizePath p) True | Some e \<Rightarrow> Rejected e) \<and>
   fst (getFS svc st) = (if fs_present st then None else createWorker svc) \<and>
   normalizePath p = (if p \<noteq> [] \<and> hd p = CHR ''/'' then p else CHR ''/'' # p) \<and>
   normalizePath p \<noteq> [] \<and> hd (normalizePath p) = CHR ''/'' \<and>
   normalizePath (normalizePath p) = normalizePath p \<and>
   normalizePath ''foo.txt'' = normalizePath ''/foo.txt'' \<and>
   readFile svc ''foo.txt'' st = readFile svc ''/foo.txt'' st"
proof -
  have same: "normalizePath ''foo.txt'' = normalizePath ''/foo.txt''"
    by (simp add: normalizePath_cases)
  have rd: "readFile svc ''foo.txt'' st = readFile svc ''/foo.txt'' st"
    unfolding readFile_def same ..
  have calls:
    "fs_calls (snd (readFile svc p st)) =
       fs_calls st @ (case fst (getFS svc st) of
                        None \<Rightarrow> [ReadFile (normalizePath p) Utf8] | Some e \<Rightarrow> [])"
    "fs_calls (snd (writeFile svc p content st)) =
       fs_calls st @ (case fst (getFS svc st) of
                        None \<Rightarrow> [WriteFile (normalizePath p) (Text content)] | Some e \<Rightarrow> [])"
    "fs_calls (snd (mkdir svc p st)) =
       fs_calls st @ (case fst (getFS svc st) of
                        None \<Rightarrow> [Mkdir (normalizePath p) True] | Some e \<Rightarrow> [])"
    "fs_calls (snd (readdir svc p st)) =
       fs_calls st @ (case fst (getFS svc st) of
                        None \<Rightarrow> [ReadDir (normalizePath p)] | Some e \<Rightarrow> [])"
    "fs_calls (snd (exists svc p st)) =
       fs_calls st @ (case fst (getFS svc st) of
                        None \<Rightarrow> [Stat (normalizePath p)] | Some e \<Rightarrow> [])"
    "fs_calls (snd (remove svc p st)) =
       fs_calls st @ (case fst (getFS svc st) of
                        None \<Rightarrow> [Remove (normalizePath p) True] | Some e \<Rightarrow> [])"
    unfolding readFile_def writeFile_def mkdir_def readdir_def exists_def remove_def
    by (rule with_fs_calls, simp add: call_fs_def)+
  have results:
    "fst (readFile svc p st) =
       (case fst (getFS svc st) of
          None \<Rightarrow> then_map (toUtf8String svc) (svc_readFile svc (normalizePath p) Utf8)
        | Some e \<Rightarrow> Rejected e)"
    "fst (writeFile svc p content st) =
       (case fst (getFS svc st) of
          None \<Rightarrow> svc_writeFile svc (normalizePath p) (Text content) | Some e \<Rightarrow> Rejected e)"
    "fst (mkdir svc p st) =
       (case fst (getFS svc st) of
          None \<Rightarrow> svc_mkdir svc (normalizePath p) True | Some e \<Rightarrow> Rejected e)"
    "fst (readdir svc p st) =
       (case fst (getFS svc st) of
          None \<Rightarrow> then_map (map (toFileEntry svc)) (svc_readDir svc (normalizePath p))
        | Some e \<Rightarrow> Rejected e)"
    "fst (remove svc p st) =
       (case fst (getFS svc st) of
          None \<Rightarrow> svc_remove svc (normalizePath p) True | Some e \<Rightarrow> Rejected e)"
    by (simp_all add: readFile_def writeFile_def mkdir_def readdir_def remove_def with_fs_result
        split: option.split)
  show ?thesis
    by (intro conjI)
      (rule calls results getFS_outcome normalizePath_cases same rd normalizePath_idem
        normalizePath_slash [THEN conjunct1] normalizePath_slash [THEN conjunct2])+
qed

section \<open>Existence check\<close>

lemma exists_result:
  "fst (exists svc p st) =
     (case fst (getFS svc st) of
        None \<Rightarrow>
          (case svc_stat svc (normalizePath p) of
             Resolved u \<Rightarrow> Resolved True
           | Rejected e \<Rightarrow> Resolved False
           | Never \<Rightarrow> Never)
      | Some e \<Rightarrow> Rejected e)"
  by (simp add: exists_def with_fs_result split: option.split)

text \<open>
  Claim C7 (amended). \<^verbatim>\<open>exists(p)\<close> first obtains the service handle, outside its
  \<^verbatim>\<open>try\<close>. Once the handle is available (it exists already, or \<^verbatim>\<open>createWorker\<close>
  returns it), \<^verbatim>\<open>exists(p)\<close> returns true exactly when the service's \<^verbatim>\<open>stat\<close> on the
  normalised path completes without fault, returns false exactly when that lookup faults
  (whatever the fault), stays pending exactly when the lookup never settles, and does
  not throw. It throws exactly when \<^verbatim>\<open>createWorker\<close> has to be called and throws, and
  then with that fault.
\<close>

theorem exists_reports_lookup:
  "(fst (exists svc p st) = Resolved True \<longleftrightarrow>
      fst (getFS svc st) = None \<and> svc_stat svc (normalizePath p) = Resolved ()) \<and>
   (fst (exists svc p st) = Resolved False \<longleftrightarrow>
      fst (getFS svc st) = None \<and> (\<exists>e'. svc_stat svc (normalizePath p) = Rejected e')) \<and>
   (fst (exists svc p st) = Never \<longleftrightarrow>
      fst (getFS svc st) = None \<and> svc_stat svc (normalizePath p) = Never) \<and>
   (fst (exists svc p st) = Rejected e \<longleftrightarrow> fst (getFS svc st) = Some e) \<and>
   (fst (getFS svc st) = Some e \<longleftrightarrow> \<not> fs_present st \<and> createWorker svc = Some e) \<and>
   (fst (getFS svc st) = None \<longrightarrow> (\<forall>e'. fst (exists svc p st) \<noteq> Rejected e'))"
proof (cases "fst (getFS svc st)")
  case None
  then show ?thesis
    using getFS_outcome [of svc st]
    by (cases "svc_stat svc (normalizePath p)") (auto simp: exists_result split: if_splits)
next
  case (Some e0)
  then show ?thesis
    using getFS_outcome [of svc st] by (auto simp: exists_result split: if_splits)
qed

theorem exists_reports_lookup_witness:
  "fst (getFS example_service fresh_fs) = None \<and>
   svc_stat example_service (normalizePath ''b.txt'') = Rejected (ErrorObj ''NotFoundError'' ''no such entry'') \<and>
   fst (exists example_service ''b.txt'' fresh_fs) = Resolved False \<and>
   fst (exists example_service ''a.txt'' fresh_fs) = Resolved True"
  using exists_reports_lookup [of example_service "''b.txt''" fresh_fs]
    exists_reports_lookup [of example_service "''a.txt''" fresh_fs]
  by (simp add: example_service_def fresh_fs_def getFS_outcome normalizePath_def startsWith_def)

text \<open>Claim C7 as stated fails where no worker can be constructed: \<^verbatim>\<open>getFS()\<close> stands
  before the \<^verbatim>\<open>try\<close>, so the fault of \<^verbatim>\<open>createWorker\<close> leaves \<^verbatim>\<open>exists\<close>.\<close>

theorem exists_rejects_without_worker:
  "fst (exists no_worker_service ''a.txt'' fresh_fs) =
     Rejected (ErrorObj ''ReferenceError'' ''Worker is not defined'')"
  by (simp add: exists_result getFS_outcome no_worker_service_def example_service_def fresh_fs_def)

section \<open>Forwarding of change notifications\<close>

lemma typed_record_truthy:
  "js_opt_field msg ''type'' = JStr t \<Longrightarrow> js_truthy msg"
  by (cases msg) simp_all

text \<open>
  Claim C8 (amended). With a callback present, the handler invokes it exactly when the
  record is a \<^verbatim>\<open>rename\<close> whose \<^verbatim>\<open>from\<close> and \<^verbatim>\<open>to\<close> are both truthy, or a
  \<^verbatim>\<open>create\<close>, \<^verbatim>\<open>modify\<close> or \<^verbatim>\<open>remove\<close> whose \<^verbatim>\<open>path\<close> is truthy; for a string,
  truthy means non-empty, and an absent field is not truthy. The record's kind and paths
  are forwarded unchanged. Every other record is dropped without a call and without a
  fault, and so is every record when no callback was passed.
\<close>

theorem watch_handler_forwards_well_formed:
  "((\<exists>ev. handler True msg = Some ev) \<longleftrightarrow>
      (js_opt_field msg ''type'' = JStr ''rename'' \<and> js_truthy (js_opt_field msg ''from'')
         \<and> js_truthy (js_opt_field msg ''to'')) \<or>
      ((js_opt_field msg ''type'' = JStr ''create'' \<or> js_opt_field msg ''type'' = JStr ''modify''
          \<or> js_opt_field msg ''type'' = JStr ''remove'')
         \<and> js_truthy (js_opt_field msg ''path''))) \<and>
   (\<forall>ev. handler True msg = Some ev \<longrightarrow>
      ev = (if js_opt_field msg ''type'' = JStr ''rename''
            then JObj [(''event'', JStr ''rename''), (''from'', js_opt_field msg ''from''),
                       (''to'', js_opt_field msg ''to'')]
            else JObj [(''event'', js_opt_field msg ''type''), (''path'', js_opt_field msg ''path'')])) \<and>
   (\<forall>s. js_truthy (JStr s) \<longleftrightarrow> s \<noteq> []) \<and>
   \<not> js_truthy JUndefined \<and>
   handler False msg = None"
proof -
  have t: "js_truthy msg" if "js_opt_field msg ''type'' = JStr t" for t
    using that by (rule typed_record_truthy)
  show ?thesis
    by (auto simp: handler_def dest: t)
qed

theorem watch_handler_forwards_well_formed_witness:
  "handler True (JObj [(''type'', JStr ''rename''), (''from'', JStr ''/a''), (''to'', JStr ''/b'')])
     = Some (JObj [(''event'', JStr ''rename''), (''from'', JStr ''/a''), (''to'', JStr ''/b'')]) \<and>
   handler True (JObj [(''type'', JStr ''modify''), (''path'', JStr ''/a'')])
     = Some (JObj [(''event'', JStr ''modify''), (''path'', JStr ''/a'')])"
proof -
  have "handler True (JObj [(''type'', JStr ''rename''), (''from'', JStr ''/a''), (''to'', JStr ''/b'')])
      = Some (JObj [(''event'', JStr ''rename''), (''from'', JStr ''/a''), (''to'', JStr ''/b'')])"
    by (simp add: handler_def)
  moreover have "handler True (JObj [(''type'', JStr ''modify''), (''path'', JStr ''/a'')])
      = Some (JObj [(''event'', JStr ''modify''), (''path'', JStr ''/a'')])"
    by (simp add: handler_def)
  ultimately show ?thesis
    using watch_handler_forwards_well_formed
      [of "JObj [(''type'', JStr ''rename''), (''from'', JStr ''/a''), (''to'', JStr ''/b'')]"]
    by simp
qed

text \<open>Claim C8 as stated fails on a \<^verbatim>\<open>create\<close> record that carries the empty path: the
  field is there, and the record is dropped.\<close>

theorem watch_handler_drops_empty_path:
  "handler True (JObj [(''type'', JStr ''create''), (''path'', JStr [])]) = None"
  by (simp add: handler_def)

section \<open>Destroying a sandbox\<close>

text \<open>
  Claim C4. After \<^verbatim>\<open>destroy(id)\<close> the registry has no entry for \<open>id\<close>, and every
  other entry is as before. When \<^verbatim>\<open>terminate\<close> throws, the entry is removed all the
  same (the fault then leaves \<^verbatim>\<open>destroy\<close>: the \<^verbatim>\<open>try\<close> has a \<^verbatim>\<open>finally\<close> and no
  \<^verbatim>\<open>catch\<close>). When \<open>id\<close> is not registered, \<^verbatim>\<open>destroy\<close> changes nothing and does
  not fail.
\<close>

theorem destroy_removes_entry:
  "sandboxId \<notin> fst ` set (registry (snd (destroy env sandboxId st))) \<and>
   map_of (registry (snd (destroy env sandboxId st))) sandboxId = None \<and>
   (\<forall>k. k \<noteq> sandboxId \<longrightarrow>
      map_of (registry (snd (destroy env sandboxId st))) k = map_of (registry st) k) \<and>
   (\<forall>sb e. map_of (registry st) sandboxId = Some sb \<and> terminate env (worker sb) = Some e \<longrightarrow>
      fst (destroy env sandboxId st) = Some e \<and>
      terminated (snd (destroy env sandboxId st)) = terminated st @ [worker sb] \<and>
      map_of (registry (snd (destroy env sandboxId st))) sandboxId = None) \<and>
   (map_of (registry st) sandboxId = None \<longrightarrow> destroy env sandboxId st = (None, st))"
proof (cases "map_of (registry st) sandboxId")
  case None
  then have "sandboxId \<notin> fst ` set (registry st)"
    by (simp add: map_of_eq_None_iff)
  with None show ?thesis by (simp add: destroy_def)
next
  case (Some sb)
  then show ?thesis
    by (simp add: destroy_def delete_notin_dom delete_conv')
qed

theorem destroy_removes_entry_witness:
  "map_of (registry example_provider) ''sb-1'' = Some example_sandbox \<and>
   terminate failing_env (worker example_sandbox) = Some (ErrorObj ''Error'' ''terminate failed'') \<and>
   fst (destroy failing_env ''sb-1'' example_provider) = Some (ErrorObj ''Error'' ''terminate failed'') \<and>
   registry (snd (destroy failing_env ''sb-1'' example_provider)) = [] \<and>
   map_of (registry example_provider) ''sb-2'' = None \<and>
   destroy failing_env ''sb-2'' example_provider = (None, example_provider)"
  using destroy_removes_entry [of "''sb-1''" failing_env example_provider]
    destroy_removes_entry [of "''sb-2''" failing_env example_provider]
  by (simp add: example_provider_def failing_env_def example_sandbox_def destroy_def)

section \<open>Unsupported capabilities\<close>

text \<open>
  Claim C5. The requested runtime is \<^verbatim>\<open>options.runtime\<close> if present, else
  \<^verbatim>\<open>config.runtime\<close>, else \<^verbatim>\<open>python\<close>. For every requested runtime other than
  \<^verbatim>\<open>python\<close>, \<^verbatim>\<open>create\<close> throws the validation fault and leaves the provider state
  as it was: no worker is spawned, no UUID drawn, the registry untouched. For
  \<^verbatim>\<open>python\<close> it spawns a worker and does not throw. \<^verbatim>\<open>runCommand\<close>, a function
  with no failing path, returns for every sandbox and command exit code 127, empty standard
  output and a non-empty standard error, in both variants of the provider.
\<close>

theorem unsupported_capabilities_reported:
  \<open>requested_runtime config options =
     (case (case options of Some opts \<Rightarrow> opt_runtime opts | None \<Rightarrow> None) of
        Some r \<Rightarrow> r
      | None \<Rightarrow> (case cfg_runtime config of Some r \<Rightarrow> r | None \<Rightarrow> ''python'')) \<and>
   (requested_runtime config options \<noteq> ''python'' \<longrightarrow>
      create env config options st =
        (Rejected (ErrorObj ''Error''
           (''Unsupported runtime "'' @ requested_runtime config options
              @ ''". Only "python" is supported.'')), st)) \<and>
   (requested_runtime config options = ''python'' \<longrightarrow>
      spawned (snd (create env config options st)) = Suc (spawned st) \<and>
      (\<forall>e. fst (create env config options st) \<noteq> Rejected e)) \<and>
   res_exitCode (runCommand sb command) = 127 \<and>
   res_stdout (runCommand sb command) = [] \<and>
   res_stderr (runCommand sb command) = ''runCommand("'' @ command @ ''") not supported in browser'' \<and>
   res_stderr (runCommand sb command) \<noteq> [] \<and>
   res_exitCode (runCommand_variant sb command) = 127 \<and>
   res_stdout (runCommand_variant sb command) = [] \<and>
   res_stderr (runCommand_variant sb command) \<noteq> []\<close>
proof -
  have rt: "requested_runtime config options =
     (case (case options of Some opts \<Rightarrow> opt_runtime opts | None \<Rightarrow> None) of
        Some r \<Rightarrow> r
      | None \<Rightarrow> (case cfg_runtime config of Some r \<Rightarrow> r | None \<Rightarrow> ''python''))"
    by (simp add: requested_runtime_def orElse_def split: option.split)
  have bad: \<open>create env config options st =
        (Rejected (ErrorObj ''Error''
           (''Unsupported runtime "'' @ requested_runtime config options
              @ ''". Only "python" is supported.'')), st)\<close>
    if "requested_runtime config options \<noteq> ''python''"
    using that by (simp add: create_def Let_def)
  have good: "spawned (snd (create env config options st)) = Suc (spawned st) \<and>
      (\<forall>e. fst (create env config options st) \<noteq> Rejected e)"
    if "requested_runtime config options = ''python''"
    using that by (simp add: create_def Let_def split: option.split prod.split)
  have cmd: \<open>res_exitCode (runCommand sb command) = 127 \<and>
      res_stdout (runCommand sb command) = [] \<and>
      res_stderr (runCommand sb command) = ''runCommand("'' @ command @ ''") not supported in browser''\<close>
    by (simp add: runCommand_def makeExecutionResult_def orElse_def)
  have var: "res_exitCode (runCommand_variant sb command) = 127 \<and>
      res_stdout (runCommand_variant sb command) = [] \<and>
      res_stderr (runCommand_variant sb command) \<noteq> []"
    by (simp add: runCommand_variant_def)
  from rt bad good cmd var show ?thesis by simp
qed

theorem unsupported_capabilities_reported_witness:
  \<open>requested_runtime \<lparr> cfg_runtime = Some ''python'', pyodideIndexURL = None \<rparr>
      (Some \<lparr> opt_runtime = Some ''node'', opt_sandboxId = None \<rparr>) = ''node'' \<and>
   create failing_env \<lparr> cfg_runtime = Some ''python'', pyodideIndexURL = None \<rparr>
      (Some \<lparr> opt_runtime = Some ''node'', opt_sandboxId = None \<rparr>) example_provider =
     (Rejected (ErrorObj ''Error'' ''Unsupported runtime "node". Only "python" is supported.''),
      example_provider) \<and>
   requested_runtime \<lparr> cfg_runtime = None, pyodideIndexURL = None \<rparr> None = ''python'' \<and>
   spawned (snd (create failing_env \<lparr> cfg_runtime = None, pyodideIndexURL = None \<rparr> None
                   example_provider)) = 2\<close>
  using unsupported_capabilities_reported
      [of "\<lparr> cfg_runtime = Some ''python'', pyodideIndexURL = None \<rparr>"
          "Some \<lparr> opt_runtime = Some ''node'', opt_sandboxId = None \<rparr>" failing_env example_provider]
    unsupported_capabilities_reported
      [of "\<lparr> cfg_runtime = None, pyodideIndexURL = None \<rparr>" None failing_env example_provider]
  by (simp add: example_provider_def)


section \<open>The loader's memoisation\<close>

lemma start_load_fields:
  "imported (snd (start_load env st)) = imported st"
  "PYODIDE_INDEX_URL (snd (start_load env st)) = PYODIDE_INDEX_URL st"
  "outbox (snd (start_load env st)) = outbox st"
  by (simp_all add: start_load_def Let_def split: sum.split)

lemma start_load_returns:
  assumes "loadPyodide env (PYODIDE_INDEX_URL st) = Inr how"
  shows "fst (start_load env st) = Inr \<lparr> made_by_load = length (loaded st), outcome = how \<rparr>"
    and "pyPromise (snd (start_load env st)) =
           Some \<lparr> made_by_load = length (loaded st), outcome = how \<rparr>"
    and "loaded (snd (start_load env st)) = loaded st @ [PYODIDE_INDEX_URL st]"
  using assms by (simp_all add: start_load_def Let_def)

lemma start_load_throws:
  assumes "loadPyodide env (PYODIDE_INDEX_URL st) = Inl e"
  shows "fst (start_load env st) = Inl e"
    and "pyPromise (snd (start_load env st)) = pyPromise st"
    and "loaded (snd (start_load env st)) = loaded st"
    and "load_thrown (snd (start_load env st)) = load_thrown st @ [PYODIDE_INDEX_URL st]"
  using assms by (simp_all add: start_load_def)


lemma import_and_load_outbox: "outbox (snd (import_and_load env st)) = outbox st"
  by (simp add: import_and_load_def Let_def start_load_fields split: option.split)


lemma ensurePyodide_outbox: "outbox (snd (ensurePyodide env u st)) = outbox st"
  by (simp add: ensurePyodide_def import_and_load_outbox split: option.split jsval.split)



















text \<open>The definitions that evaluate the worker on a concrete message.\<close>

lemmas worker_eval =
  onmessage_def dispatch_def run_and_reply_def ensurePyodide_def import_and_load_def
  start_load_def execWithCapture_def postMessage_def js_spread_def js_index_def
  js_coalesce_def with_slash_def endsWith_def Let_def init_worker_def worker_run_def
  healthy_env_def offline_env_def broken_runtime_env_def throwing_loader_env_def
  looping_env_def replies_def




section \<open>Replies of the dispatcher\<close>

text \<open>The result object of \<^verbatim>\<open>execWithCapture\<close> has no \<^verbatim>\<open>id\<close>, so the spread keeps the
  dispatcher's; and it reports success exactly with exit code 0.\<close>

lemma execWithCapture_reply:
  assumes "execWithCapture env code = Resolved res"
  shows "js_spread [(''id'', ident)] res = (''id'', ident) # res \<and>
         js_opt_field (JObj ((''id'', ident) # res)) ''id'' = ident \<and>
         (js_opt_field (JObj ((''id'', ident) # res)) ''ok'' = JBool True \<longleftrightarrow>
          js_opt_field (JObj ((''id'', ident) # res)) ''exitCode'' = JNum 0)"
  using assms
  by (auto simp: execWithCapture_def js_spread_def Let_def split: settle.splits)

lemma execWithCapture_never_rejects: "execWithCapture env code \<noteq> Rejected e"
  by (simp add: execWithCapture_def Let_def split: settle.split)

lemma execWithCapture_Never:
  "execWithCapture env code = Never \<longleftrightarrow> runPythonAsync env code = Never"
  by (simp add: execWithCapture_def Let_def split: settle.split)

lemma run_and_reply_cases:
  "(\<exists>res. execWithCapture env code = Resolved res \<and>
      run_and_reply env ident code r =
        (Resolved (), postMessage (JObj ((''id'', ident) # res)) (snd r))) \<or>
   (\<exists>e. run_and_reply env ident code r = (Rejected e, snd r) \<and>
      (fst r = Inl e \<or> (\<exists>p. fst r = Inr p \<and> outcome p = Rejected e))) \<or>
   (run_and_reply env ident code r = (Never, snd r) \<and>
      (\<exists>p. fst r = Inr p \<and>
         (outcome p = Never \<or> outcome p = Resolved () \<and> runPythonAsync env code = Never)))"
proof (cases r)
  case (Pair a s)
  show ?thesis
  proof (cases a)
    case (Inl e)
    with Pair show ?thesis by (simp add: run_and_reply_def)
  next
    case (Inr p)
    show ?thesis
    proof (cases "outcome p")
      case (Resolved u)
      show ?thesis
      proof (cases "execWithCapture env code")
        case (Resolved res)
        with \<open>outcome p = Resolved u\<close> Pair Inr execWithCapture_reply [OF Resolved, of ident]
        show ?thesis by (simp add: run_and_reply_def)
      next
        case (Rejected e)
        with execWithCapture_never_rejects show ?thesis by blast
      next
        case Never
        with \<open>outcome p = Resolved u\<close> Pair Inr execWithCapture_Never [of env code]
        show ?thesis by (simp add: run_and_reply_def)
      qed
    next
      case (Rejected e)
      with Pair Inr show ?thesis by (simp add: run_and_reply_def)
    next
      case Never
      with Pair Inr show ?thesis by (simp add: run_and_reply_def)
    qed
  qed
qed


lemma dispatch_cases:
  "(\<exists>r s0. dispatch env msg ident st = (Resolved (), postMessage r s0) \<and> outbox s0 = outbox st \<and>
      js_opt_field r ''id'' = ident \<and>
      (js_opt_field r ''ok'' = JBool True \<longleftrightarrow> js_opt_field r ''exitCode'' = JNum 0)) \<or>
   (\<exists>e s0. dispatch env msg ident st = (Rejected e, s0) \<and> outbox s0 = outbox st) \<or>
   (\<exists>s0. dispatch env msg ident st = (Never, s0) \<and> outbox s0 = outbox st)"
proof -
  have via: "?thesis"
    if d: "dispatch env msg ident st = run_and_reply env ident code (ensurePyodide env u st)"
    for code u
  proof -
    let ?r = "ensurePyodide env u st"
    have ob: "outbox (snd ?r) = outbox st" by (rule ensurePyodide_outbox)
    from run_and_reply_cases [of env code ident ?r]
    consider res where "execWithCapture env code = Resolved res"
        "dispatch env msg ident st = (Resolved (), postMessage (JObj ((''id'', ident) # res)) (snd ?r))"
      | e where "dispatch env msg ident st = (Rejected e, snd ?r)"
      | "dispatch env msg ident st = (Never, snd ?r)"
      unfolding d by blast
    then show ?thesis
    proof cases
      case 1
      with execWithCapture_reply [OF 1(1), of ident] ob show ?thesis by blast
    next
      case 2
      with ob show ?thesis by blast
    next
      case 3
      with ob show ?thesis by blast
    qed
  qed
  consider "js_nullish msg"
    | "\<not> js_nullish msg" "js_opt_field msg ''type'' = JStr ''init''"
    | "\<not> js_nullish msg" "js_opt_field msg ''type'' \<noteq> JStr ''init''"
        "js_opt_field msg ''type'' = JStr ''runCode''"
    | "\<not> js_nullish msg" "js_opt_field msg ''type'' \<noteq> JStr ''init''"
        "js_opt_field msg ''type'' \<noteq> JStr ''runCode''"
    by blast
  then show ?thesis
  proof cases
    case 1
    then show ?thesis by (simp add: dispatch_def)
  next
    case 2
    then show ?thesis by (intro via) (simp add: dispatch_def)
  next
    case 3
    then show ?thesis by (intro via) (simp add: dispatch_def)
  next
    case 4
    let ?r = "JObj [(''id'', ident), (''ok'', JBool False), (''exitCode'', JNum 1),
        (''error'', JStr (''Unknown message type: '' @ js_String (js_opt_field msg ''type'')))]"
    from 4 have "dispatch env msg ident st = (Resolved (), postMessage ?r st)"
      by (simp add: dispatch_def)
    moreover have "js_opt_field ?r ''id'' = ident"
      "js_opt_field ?r ''ok'' = JBool True \<longleftrightarrow> js_opt_field ?r ''exitCode'' = JNum 0"
      by simp_all
    ultimately show ?thesis by blast
  qed
qed

lemma replies_cases:
  "outbox (onmessage env msg st) = outbox st @ replies env msg st \<and>
   ((\<exists>r. fst (dispatch env msg (js_coalesce (js_opt_field msg ''id'') (JStr [])) st) = Resolved () \<and>
       replies env msg st = [r] \<and>
       js_opt_field r ''id'' = js_coalesce (js_opt_field msg ''id'') (JStr []) \<and>
       (js_opt_field r ''ok'' = JBool True \<longleftrightarrow> js_opt_field r ''exitCode'' = JNum 0)) \<or>
    (\<exists>e. fst (dispatch env msg (js_coalesce (js_opt_field msg ''id'') (JStr [])) st) = Rejected e \<and>
       replies env msg st =
         [JObj [(''id'', js_coalesce (js_opt_field msg ''id'') (JStr [])), (''ok'', JBool False),
                (''exitCode'', JNum 1), (''error'', JStr (err_message e)),
                (''stderr'', JStr (err_toString e))]]) \<or>
    (fst (dispatch env msg (js_coalesce (js_opt_field msg ''id'') (JStr [])) st) = Never \<and>
       replies env msg st = []))"
proof -
  let ?ident = "js_coalesce (js_opt_field msg ''id'') (JStr [])"
  from dispatch_cases [of env msg ?ident st]
  consider r s0 where "dispatch env msg ?ident st = (Resolved (), postMessage r s0)"
      "outbox s0 = outbox st" "js_opt_field r ''id'' = ?ident"
      "js_opt_field r ''ok'' = JBool True \<longleftrightarrow> js_opt_field r ''exitCode'' = JNum 0"
    | e s0 where "dispatch env msg ?ident st = (Rejected e, s0)" "outbox s0 = outbox st"
    | s0 where "dispatch env msg ?ident st = (Never, s0)" "outbox s0 = outbox st"
    by blast
  then show ?thesis
  proof cases
    case 1
    then have "outbox (onmessage env msg st) = outbox st @ [r]"
      by (simp add: onmessage_def Let_def postMessage_def)
    with 1 show ?thesis by (simp add: replies_def)
  next
    case 2
    then have "outbox (onmessage env msg st) = outbox st @
        [JObj [(''id'', ?ident), (''ok'', JBool False), (''exitCode'', JNum 1),
               (''error'', JStr (err_message e)), (''stderr'', JStr (err_toString e))]]"
      by (simp add: onmessage_def Let_def postMessage_def)
    with 2 show ?thesis by (simp add: replies_def)
  next
    case 3
    then have "outbox (onmessage env msg st) = outbox st"
      by (simp add: onmessage_def Let_def)
    with 3 show ?thesis by (simp add: replies_def)
  qed
qed

lemma dispatch_via_loader:
  assumes "\<not> js_nullish msg"
    and "js_opt_field msg ''type'' = JStr ''init'' \<or> js_opt_field msg ''type'' = JStr ''runCode''"
  shows \<open>dispatch env msg ident st =
     run_and_reply env ident
       (if js_opt_field msg ''type'' = JStr ''init'' then JStr ''print("pyodide ready")''
        else js_opt_field msg ''code'')
       (ensurePyodide env
          (if js_opt_field msg ''type'' = JStr ''init'' then js_opt_field msg ''indexURL''
           else JUndefined) st)\<close>
  using assms by (auto simp: dispatch_def)

lemma dispatch_no_loader:
  assumes "js_nullish msg \<or>
     (js_opt_field msg ''type'' \<noteq> JStr ''init'' \<and> js_opt_field msg ''type'' \<noteq> JStr ''runCode'')"
  shows "fst (dispatch env msg ident st) \<noteq> Never"
    and "fst (dispatch env msg ident st) = Rejected e \<longleftrightarrow> js_nullish msg \<and> e = typeError env"
  using assms by (auto simp: dispatch_def)

lemma run_and_reply_outcomes:
  "(fst (run_and_reply env ident code r) = Never \<longleftrightarrow>
      (\<exists>p. fst r = Inr p \<and>
         (outcome p = Never \<or> outcome p = Resolved () \<and> runPythonAsync env code = Never))) \<and>
   (fst (run_and_reply env ident code r) = Rejected e \<longleftrightarrow>
      fst r = Inl e \<or> (\<exists>p. fst r = Inr p \<and> outcome p = Rejected e))"
proof (cases r)
  case (Pair a s)
  show ?thesis
  proof (cases a)
    case (Inl e')
    with Pair show ?thesis by (auto simp: run_and_reply_def)
  next
    case (Inr p)
    show ?thesis
    proof (cases "outcome p")
      case (Resolved u)
      with Pair Inr execWithCapture_never_rejects [of env code] execWithCapture_Never [of env code]
      show ?thesis
        by (cases "execWithCapture env code") (simp_all add: run_and_reply_def)
    next
      case (Rejected e')
      with Pair Inr show ?thesis by (auto simp: run_and_reply_def)
    next
      case Never
      with Pair Inr show ?thesis by (simp add: run_and_reply_def)
    qed
  qed
qed

lemma dispatch_outcomes:
  \<open>(fst (dispatch env msg ident st) = Never \<longleftrightarrow>
      \<not> js_nullish msg \<and>
      (js_opt_field msg ''type'' = JStr ''init'' \<or> js_opt_field msg ''type'' = JStr ''runCode'') \<and>
      (\<exists>p. fst (ensurePyodide env
                 (if js_opt_field msg ''type'' = JStr ''init'' then js_opt_field msg ''indexURL''
                  else JUndefined) st) = Inr p \<and>
           (outcome p = Never \<or>
            outcome p = Resolved () \<and>
            runPythonAsync env
              (if js_opt_field msg ''type'' = JStr ''init'' then JStr ''print("pyodide ready")''
               else js_opt_field msg ''code'') = Never))) \<and>
   (fst (dispatch env msg ident st) = Rejected e \<longleftrightarrow>
      (js_nullish msg \<and> e = typeError env) \<or>
      (\<not> js_nullish msg \<and>
       (js_opt_field msg ''type'' = JStr ''init'' \<or> js_opt_field msg ''type'' = JStr ''runCode'') \<and>
       (fst (ensurePyodide env
              (if js_opt_field msg ''type'' = JStr ''init'' then js_opt_field msg ''indexURL''
               else JUndefined) st) = Inl e \<or>
        (\<exists>p. fst (ensurePyodide env
                 (if js_opt_field msg ''type'' = JStr ''init'' then js_opt_field msg ''indexURL''
                  else JUndefined) st) = Inr p \<and> outcome p = Rejected e))))\<close>
proof (cases "\<not> js_nullish msg \<and>
      (js_opt_field msg ''type'' = JStr ''init'' \<or> js_opt_field msg ''type'' = JStr ''runCode'')")
  case True
  let ?code = \<open>if js_opt_field msg ''type'' = JStr ''init'' then JStr ''print("pyodide ready")''
        else js_opt_field msg ''code''\<close>
  let ?r = "ensurePyodide env
          (if js_opt_field msg ''type'' = JStr ''init'' then js_opt_field msg ''indexURL''
           else JUndefined) st"
  have d: "dispatch env msg ident st = run_and_reply env ident ?code ?r"
    using True by (intro dispatch_via_loader) simp_all
  from run_and_reply_outcomes [of env ident ?code ?r e] True
  show ?thesis unfolding d by simp
next
  case False
  with dispatch_no_loader(1) [of msg env ident st] dispatch_no_loader(2) [of msg env ident st e]
  show ?thesis by auto
qed

lemma dispatch_outcomes':
  "(fst (dispatch env msg ident st) = Never \<longleftrightarrow>
      \<not> js_nullish msg \<and>
      (js_opt_field msg ''type'' = JStr ''init'' \<or> js_opt_field msg ''type'' = JStr ''runCode'') \<and>
      (\<exists>p. fst (ensurePyodide env (loader_arg msg) st) = Inr p \<and>
           (outcome p = Never \<or>
            outcome p = Resolved () \<and> runPythonAsync env (submitted_code msg) = Never))) \<and>
   (fst (dispatch env msg ident st) = Rejected e \<longleftrightarrow>
      (js_nullish msg \<and> e = typeError env) \<or>
      (\<not> js_nullish msg \<and>
       (js_opt_field msg ''type'' = JStr ''init'' \<or> js_opt_field msg ''type'' = JStr ''runCode'') \<and>
       (fst (ensurePyodide env (loader_arg msg) st) = Inl e \<or>
        (\<exists>p. fst (ensurePyodide env (loader_arg msg) st) = Inr p \<and> outcome p = Rejected e))))"
  unfolding loader_arg_def submitted_code_def by (rule dispatch_outcomes)

lemma replies_interpreter_rejects:
  assumes "\<not> js_nullish msg"
    and "js_opt_field msg ''type'' = JStr ''init'' \<or> js_opt_field msg ''type'' = JStr ''runCode''"
    and "fst (ensurePyodide env (loader_arg msg) st) = Inr p" "outcome p = Resolved ()"
    and "runPythonAsync env (submitted_code msg) = Rejected e"
  shows "replies env msg st =
     [JObj [(''id'', js_coalesce (js_opt_field msg ''id'') (JStr [])), (''ok'', JBool False),
            (''exitCode'', JNum 1), (''stderr'', JStr (err_message e)),
            (''error'', JStr (err_toString e))]]"
proof -
  let ?ident = "js_coalesce (js_opt_field msg ''id'') (JStr [])"
  let ?r = "ensurePyodide env (loader_arg msg) st"
  obtain s where r: "?r = (Inr p, s)" using assms(3) by (cases ?r) simp
  have ob: "outbox s = outbox st" using ensurePyodide_outbox [of env "loader_arg msg" st] r by simp
  have "dispatch env msg ?ident st = run_and_reply env ?ident (submitted_code msg) ?r"
    unfolding loader_arg_def submitted_code_def using assms(1,2) by (rule dispatch_via_loader)
  then have "dispatch env msg ?ident st =
      (Resolved (),
       postMessage (JObj [(''id'', ?ident), (''ok'', JBool False), (''exitCode'', JNum 1),
            (''stderr'', JStr (err_message e)), (''error'', JStr (err_toString e))]) s)"
    using r assms(4,5) by (simp add: run_and_reply_def execWithCapture_def js_spread_def)
  then show ?thesis
    using ob by (simp add: replies_def onmessage_def Let_def postMessage_def)
qed

text \<open>
  Claim C2 (amended). Every reply the dispatcher posts, for any message, has
  \<^verbatim>\<open>ok = true\<close> if and only if \<^verbatim>\<open>exitCode = 0\<close>. When the interpreter is never
  invoked (the message is \<^verbatim>\<open>null\<close> or \<^verbatim>\<open>undefined\<close>, the loader throws, or the load
  promise rejects), the reply has \<^verbatim>\<open>ok = false\<close>, \<^verbatim>\<open>exitCode = 1\<close> and a top-level
  \<^verbatim>\<open>error\<close> string holding the fault's message, which is empty exactly when that
  message is. When the call of the interpreter itself rejects, the reply has
  \<^verbatim>\<open>ok = false\<close>, \<^verbatim>\<open>exitCode = 1\<close> and \<^verbatim>\<open>error\<close> the fault converted to a string.
\<close>

theorem replies_ok_iff_exit_zero:
  "(\<forall>r \<in> set (replies env msg st).
      js_opt_field r ''ok'' = JBool True \<longleftrightarrow> js_opt_field r ''exitCode'' = JNum 0) \<and>
   (\<forall>e. (js_nullish msg \<and> e = typeError env) \<or>
        (\<not> js_nullish msg \<and>
         (js_opt_field msg ''type'' = JStr ''init'' \<or> js_opt_field msg ''type'' = JStr ''runCode'') \<and>
         (fst (ensurePyodide env (loader_arg msg) st) = Inl e \<or>
          (\<exists>p. fst (ensurePyodide env (loader_arg msg) st) = Inr p \<and> outcome p = Rejected e))) \<longrightarrow>
      replies env msg st =
        [JObj [(''id'', js_coalesce (js_opt_field msg ''id'') (JStr [])), (''ok'', JBool False),
               (''exitCode'', JNum 1), (''error'', JStr (err_message e)),
               (''stderr'', JStr (err_toString e))]]) \<and>
   (\<forall>p e. \<not> js_nullish msg \<and>
        (js_opt_field msg ''type'' = JStr ''init'' \<or> js_opt_field msg ''type'' = JStr ''runCode'') \<and>
        fst (ensurePyodide env (loader_arg msg) st) = Inr p \<and> outcome p = Resolved () \<and>
        runPythonAsync env (submitted_code msg) = Rejected e \<longrightarrow>
      replies env msg st =
        [JObj [(''id'', js_coalesce (js_opt_field msg ''id'') (JStr [])), (''ok'', JBool False),
               (''exitCode'', JNum 1), (''stderr'', JStr (err_message e)),
               (''error'', JStr (err_toString e))]])"
proof -
  let ?ident = "js_coalesce (js_opt_field msg ''id'') (JStr [])"
  note cases = replies_cases [of env msg st, THEN conjunct2]
  have iff: "\<forall>r \<in> set (replies env msg st).
      js_opt_field r ''ok'' = JBool True \<longleftrightarrow> js_opt_field r ''exitCode'' = JNum 0"
    using cases by (elim disjE exE conjE) simp_all
  have thrown: "replies env msg st =
        [JObj [(''id'', ?ident), (''ok'', JBool False), (''exitCode'', JNum 1),
               (''error'', JStr (err_message e)), (''stderr'', JStr (err_toString e))]]"
    if "fst (dispatch env msg ?ident st) = Rejected e" for e
    using cases that by (elim disjE exE conjE) simp_all
  have fault: "replies env msg st =
        [JObj [(''id'', ?ident), (''ok'', JBool False), (''exitCode'', JNum 1),
               (''error'', JStr (err_message e)), (''stderr'', JStr (err_toString e))]]"
    if "(js_nullish msg \<and> e = typeError env) \<or>
        (\<not> js_nullish msg \<and>
         (js_opt_field msg ''type'' = JStr ''init'' \<or> js_opt_field msg ''type'' = JStr ''runCode'') \<and>
         (fst (ensurePyodide env (loader_arg msg) st) = Inl e \<or>
          (\<exists>p. fst (ensurePyodide env (loader_arg msg) st) = Inr p \<and> outcome p = Rejected e)))"
    for e
    using that dispatch_outcomes' [of env msg ?ident st e, THEN conjunct2]
    by (intro thrown) simp
  from iff fault replies_interpreter_rejects [of msg env st] show ?thesis
    by (intro conjI allI impI) (simp, blast, blast)
qed

theorem replies_ok_iff_exit_zero_witness:
  "fst (ensurePyodide offline_env (loader_arg (JObj [(''id'', JStr ''1''), (''type'', JStr ''init'')]))
          init_worker) = Inl (ErrorObj ''NetworkError'' ''failed to load'') \<and>
   replies offline_env (JObj [(''id'', JStr ''1''), (''type'', JStr ''init'')]) init_worker =
     [JObj [(''id'', JStr ''1''), (''ok'', JBool False), (''exitCode'', JNum 1),
            (''error'', JStr ''failed to load''), (''stderr'', JStr ''NetworkError: failed to load'')]] \<and>
   replies healthy_env (JObj [(''id'', JStr ''2''), (''type'', JStr ''runCode''), (''code'', JStr ''1'')])
       init_worker =
     [JObj [(''id'', JStr ''2''), (''ok'', JBool True), (''exitCode'', JNum 0),
            (''stdout'', JStr ''pyodide ready''), (''stderr'', JStr [])]]"
proof -
  let ?m = "JObj [(''id'', JStr ''1''), (''type'', JStr ''init'')]"
  have l: "fst (ensurePyodide offline_env (loader_arg ?m) init_worker) =
      Inl (ErrorObj ''NetworkError'' ''failed to load'')"
    by (simp add: loader_arg_def worker_eval)
  have h: "replies healthy_env
       (JObj [(''id'', JStr ''2''), (''type'', JStr ''runCode''), (''code'', JStr ''1'')]) init_worker =
     [JObj [(''id'', JStr ''2''), (''ok'', JBool True), (''exitCode'', JNum 0),
            (''stdout'', JStr ''pyodide ready''), (''stderr'', JStr [])]]"
    by (simp add: worker_eval)
  from replies_ok_iff_exit_zero [of offline_env ?m init_worker] l
  have "replies offline_env ?m init_worker =
        [JObj [(''id'', js_coalesce (js_opt_field ?m ''id'') (JStr [])), (''ok'', JBool False),
               (''exitCode'', JNum 1),
               (''error'', JStr (err_message (ErrorObj ''NetworkError'' ''failed to load''))),
               (''stderr'', JStr (err_toString (ErrorObj ''NetworkError'' ''failed to load'')))]]"
    by simp
  with l h show ?thesis by (simp add: js_coalesce_def)
qed

text \<open>Claim C2 as stated fails on a runtime load that rejects with an Error without a
  message: the reply's top-level error string is empty.\<close>

theorem load_failure_with_empty_error:
  "outcome (the (pyPromise (onmessage broken_runtime_env
       (JObj [(''id'', JStr ''1''), (''type'', JStr ''init'')]) init_worker)))
     = Rejected (ErrorObj ''Error'' []) \<and>
   replies broken_runtime_env (JObj [(''id'', JStr ''1''), (''type'', JStr ''init'')]) init_worker =
     [JObj [(''id'', JStr ''1''), (''ok'', JBool False), (''exitCode'', JNum 1),
            (''error'', JStr []), (''stderr'', JStr ''Error'')]]"
  by (simp add: worker_eval)

text \<open>
  Claim C10 (amended). Handling a message appends its replies to the outbox and never
  more than one. The dispatcher posts no reply exactly when the handler waits for a
  promise that never settles (the load, or the run of the submitted code), and exactly
  one otherwise. Every reply echoes the message's \<^verbatim>\<open>id\<close>, the empty string when the
  \<^verbatim>\<open>id\<close> is absent or \<^verbatim>\<open>null\<close>. A fault thrown while the message is handled
  becomes the one reply \<^verbatim>\<open>{id, ok: false, exitCode: 1, error, stderr}\<close>.
\<close>

theorem dispatcher_replies_once:
  "outbox (onmessage env msg st) = outbox st @ replies env msg st \<and>
   length (replies env msg st) \<le> 1 \<and>
   (\<forall>r \<in> set (replies env msg st).
      js_opt_field r ''id'' =
        (if js_nullish (js_opt_field msg ''id'') then JStr [] else js_opt_field msg ''id'')) \<and>
   (replies env msg st = [] \<longleftrightarrow>
      \<not> js_nullish msg \<and>
      (js_opt_field msg ''type'' = JStr ''init'' \<or> js_opt_field msg ''type'' = JStr ''runCode'') \<and>
      (\<exists>p. fst (ensurePyodide env (loader_arg msg) st) = Inr p \<and>
           (outcome p = Never \<or>
            outcome p = Resolved () \<and> runPythonAsync env (submitted_code msg) = Never))) \<and>
   (\<forall>e. fst (dispatch env msg (js_coalesce (js_opt_field msg ''id'') (JStr [])) st) = Rejected e \<longrightarrow>
      replies env msg st =
        [JObj [(''id'', js_coalesce (js_opt_field msg ''id'') (JStr [])), (''ok'', JBool False),
               (''exitCode'', JNum 1), (''error'', JStr (err_message e)),
               (''stderr'', JStr (err_toString e))]])"
proof -
  let ?ident = "js_coalesce (js_opt_field msg ''id'') (JStr [])"
  have ident: "?ident = (if js_nullish (js_opt_field msg ''id'') then JStr [] else js_opt_field msg ''id'')"
    by (simp add: js_coalesce_def)
  note app = replies_cases [of env msg st, THEN conjunct1]
  note cases = replies_cases [of env msg st, THEN conjunct2]
  have one: "length (replies env msg st) \<le> 1"
    using cases by (elim disjE exE conjE) simp_all
  have echo: "\<forall>r \<in> set (replies env msg st). js_opt_field r ''id'' = ?ident"
    using cases by (elim disjE exE conjE) simp_all
  have none: "replies env msg st = [] \<longleftrightarrow> fst (dispatch env msg ?ident st) = Never"
    using cases by (elim disjE exE conjE) simp_all
  have thrown: "replies env msg st =
        [JObj [(''id'', ?ident), (''ok'', JBool False), (''exitCode'', JNum 1),
               (''error'', JStr (err_message e)), (''stderr'', JStr (err_toString e))]]"
    if "fst (dispatch env msg ?ident st) = Rejected e" for e
    using cases that by (elim disjE exE conjE) simp_all
  have hang: "replies env msg st = [] \<longleftrightarrow>
      \<not> js_nullish msg \<and>
      (js_opt_field msg ''type'' = JStr ''init'' \<or> js_opt_field msg ''type'' = JStr ''runCode'') \<and>
      (\<exists>p. fst (ensurePyodide env (loader_arg msg) st) = Inr p \<and>
           (outcome p = Never \<or>
            outcome p = Resolved () \<and> runPythonAsync env (submitted_code msg) = Never))"
    unfolding none by (rule dispatch_outcomes' [of env msg ?ident st undefined, THEN conjunct1])
  have echo': "\<forall>r \<in> set (replies env msg st).
      js_opt_field r ''id'' =
        (if js_nullish (js_opt_field msg ''id'') then JStr [] else js_opt_field msg ''id'')"
    using echo unfolding ident .
  from thrown have thrown': "\<forall>e. fst (dispatch env msg ?ident st) = Rejected e \<longrightarrow>
      replies env msg st =
        [JObj [(''id'', ?ident), (''ok'', JBool False), (''exitCode'', JNum 1),
               (''error'', JStr (err_message e)), (''stderr'', JStr (err_toString e))]]"
    by blast
  show ?thesis
    by (intro conjI) (rule app, rule one, rule echo', rule hang, rule thrown')
qed

theorem dispatcher_replies_once_witness:
  "fst (dispatch healthy_env JNull (js_coalesce (js_opt_field JNull ''id'') (JStr [])) init_worker)
     = Rejected (ErrorObj ''TypeError'' ''cannot read properties'') \<and>
   replies healthy_env JNull init_worker =
     [JObj [(''id'', JStr []), (''ok'', JBool False), (''exitCode'', JNum 1),
            (''error'', JStr ''cannot read properties''),
            (''stderr'', JStr ''TypeError: cannot read properties'')]] \<and>
   js_opt_field (hd (replies healthy_env (JObj [(''id'', JNum 7), (''type'', JStr ''shell'')]) init_worker))
     ''id'' = JNum 7"
proof -
  have d: "fst (dispatch healthy_env JNull (js_coalesce (js_opt_field JNull ''id'') (JStr [])) init_worker)
     = Rejected (ErrorObj ''TypeError'' ''cannot read properties'')"
    by (simp add: worker_eval)
  have u: "replies healthy_env (JObj [(''id'', JNum 7), (''type'', JStr ''shell'')]) init_worker =
      [JObj [(''id'', JNum 7), (''ok'', JBool False), (''exitCode'', JNum 1),
             (''error'', JStr ''Unknown message type: shell'')]]"
    by (simp add: worker_eval)
  from dispatcher_replies_once [of healthy_env JNull init_worker] d
  have "replies healthy_env JNull init_worker =
        [JObj [(''id'', js_coalesce (js_opt_field JNull ''id'') (JStr [])), (''ok'', JBool False),
               (''exitCode'', JNum 1),
               (''error'', JStr (err_message (ErrorObj ''TypeError'' ''cannot read properties''))),
               (''stderr'', JStr (err_toString (ErrorObj ''TypeError'' ''cannot read properties'')))]]"
    by blast
  with d u show ?thesis by (simp add: js_coalesce_def)
qed

text \<open>Claim C10 as stated fails on submitted code that never finishes: no reply is
  posted.\<close>

theorem no_reply_while_code_runs_forever:
  "runPythonAsync looping_env (JStr ''while True: pass'') = Never \<and>
   replies looping_env
     (JObj [(''id'', JStr ''7''), (''type'', JStr ''runCode''), (''code'', JStr ''while True: pass'')])
     init_worker = []"
  by (simp add: worker_eval)

end
